theory Spec2Isabelle
  imports Main "HOL-Library.Word"
begin

section \<open>Data model of \<open>usecase/spawn_actor_processes.go\<close>\<close>

text \<open>
  \<open>emissions.TopicId\<close> is a \<open>uint64\<close>. \<open>emissions.BlockHeight\<close> is an \<open>int64\<close>; the
  file does no arithmetic on block heights, it copies them and compares them with \<open>0\<close>,
  so they are integers here.
\<close>

type_synonym topic_id = "64 word"
type_synonym block_height = int

text \<open>A Go \<open>error\<close> value; \<open>None\<close> is \<open>nil\<close>.\<close>

type_synonym error = "string option"

record Topic =
  Id :: topic_id
  EpochLength :: block_height

record Nonce =
  BlockHeight :: block_height

text \<open>
  \<open>lib.WorkerConfig\<close> and \<open>lib.ReputerConfig\<close>: the file reads only their \<open>TopicId\<close>;
  everything else a configuration carries is the second field.
\<close>

record ActorConfig =
  TopicId :: topic_id

record 'p WorkerConfig = ActorConfig +
  WorkerParams :: 'p

record 'q ReputerConfig = ActorConfig +
  ReputerParams :: 'q

section \<open>The collaborators\<close>

text \<open>
  Everything the loops call lives outside the file: the chain client \<open>suite.Node\<close>, the
  payload builders of the suite, and the methods of \<open>AnticipatedWindow\<close>. They are
  parameters here. \<open>'c\<close> is the state of the outside world (the chain, the clock): a call
  that talks to the chain or suspends the goroutine takes the world and returns the new one.
  \<open>'w\<close> is the type \<open>AnticipatedWindow\<close>, and \<open>zeroWindow\<close> its zero value
  \<open>AnticipatedWindow{}\<close>. A function that returns a pointer returns an \<open>option\<close>,
  \<open>None\<close> being \<open>nil\<close>. \<open>BuildCommitWorkerPayload\<close> is handed the nonce pointer the
  loop has just read through, which is not nil there, so it takes the nonce itself.
\<close>

record ('c, 'w, 'p, 'q) node =
  GetTopicById :: "topic_id \<Rightarrow> 'c \<Rightarrow> (Topic \<times> error) \<times> 'c"
  RegisterWorkerIdempotently :: "'p WorkerConfig \<Rightarrow> 'c \<Rightarrow> bool \<times> 'c"
  RegisterAndStakeReputerIdempotently :: "'q ReputerConfig \<Rightarrow> 'c \<Rightarrow> bool \<times> 'c"
  GetCurrentChainBlockHeight :: "'c \<Rightarrow> (block_height \<times> error) \<times> 'c"
  GetLatestOpenWorkerNonceByTopicId :: "topic_id \<Rightarrow> 'c \<Rightarrow> (Nonce option \<times> error) \<times> 'c"
  BuildCommitWorkerPayload :: "'p WorkerConfig \<Rightarrow> Nonce \<Rightarrow> 'c \<Rightarrow> (bool \<times> error) \<times> 'c"
  BuildCommitReputerPayload :: "'q ReputerConfig \<Rightarrow> block_height \<Rightarrow> 'c \<Rightarrow> (bool \<times> error) \<times> 'c"
  zeroWindow :: 'w
  CalcWorkerSoonestAnticipatedWindow :: "'w \<Rightarrow> Topic \<Rightarrow> block_height \<Rightarrow> 'c \<Rightarrow> 'w \<times> 'c"
  CalcReputerSoonestAnticipatedWindow :: "'w \<Rightarrow> Topic \<Rightarrow> block_height \<Rightarrow> 'w option"
  BlockIsWithinWindow :: "'w \<Rightarrow> block_height \<Rightarrow> bool"
  BlockIsWithinReputerWindow :: "'w \<Rightarrow> block_height \<Rightarrow> bool"
  WaitForNextAnticipatedWindowToStart :: "'w \<Rightarrow> block_height \<Rightarrow> block_height \<Rightarrow> 'c \<Rightarrow> 'c"
  WaitForNextReputerAnticipatedWindowToStart ::
    "'w \<Rightarrow> Topic \<Rightarrow> block_height \<Rightarrow> block_height \<Rightarrow> 'c \<Rightarrow> 'c"
  WaitWithinAnticipatedWindow :: "'c \<Rightarrow> 'c"

section \<open>Observable events\<close>

text \<open>
  Every call of a collaborator with an effect, and every log line, is recorded in a trace,
  in program order, with the arguments of the call (for a wait, the window it is called
  on comes first). A height event carries the height and the error the call returned, a
  commit event the \<open>success\<close> flag.
\<close>

datatype log_level = DebugLevel | InfoLevel | ErrorLevel

datatype ('w, 'p, 'q) event =
    Log log_level string
  | Println block_height
  | CallGetTopicById topic_id
  | CallRegisterWorkerIdempotently "'p WorkerConfig"
  | CallRegisterAndStakeReputerIdempotently "'q ReputerConfig"
  | CallGetCurrentChainBlockHeight block_height error
  | CallCalcWorkerSoonestAnticipatedWindow Topic block_height
  | CallCalcReputerSoonestAnticipatedWindow Topic block_height
  | CallGetLatestOpenWorkerNonceByTopicId topic_id
  | CallBuildCommitWorkerPayload "'p WorkerConfig" Nonce bool
  | CallBuildCommitReputerPayload "'q ReputerConfig" block_height bool
  | CallWaitForNextAnticipatedWindowToStart 'w block_height block_height
  | CallWaitForNextReputerAnticipatedWindowToStart 'w Topic block_height block_height
  | CallWaitWithinAnticipatedWindow

record ('c, 'w, 'p, 'q) sys =
  world :: 'c
  trace :: "('w, 'p, 'q) event list"

definition emit :: "('w, 'p, 'q) event \<Rightarrow> ('c, 'w, 'p, 'q) sys \<Rightarrow> ('c, 'w, 'p, 'q) sys" where
  "emit e s = s\<lparr>trace := trace s @ [e]\<rparr>"

text \<open>A call: run the collaborator on the world, record the event.\<close>

definition call ::
  "('w, 'p, 'q) event \<Rightarrow> ('c \<Rightarrow> 'a \<times> 'c) \<Rightarrow> ('c, 'w, 'p, 'q) sys \<Rightarrow> 'a \<times> ('c, 'w, 'p, 'q) sys" where
  "call e f s = (case f (world s) of (r, c) \<Rightarrow> (r, emit e (s\<lparr>world := c\<rparr>)))"

text \<open>The same, for a call whose result goes into the event.\<close>

definition callr ::
  "('a \<Rightarrow> ('w, 'p, 'q) event) \<Rightarrow> ('c \<Rightarrow> 'a \<times> 'c) \<Rightarrow> ('c, 'w, 'p, 'q) sys \<Rightarrow> 'a \<times> ('c, 'w, 'p, 'q) sys" where
  "callr e f s = (case f (world s) of (r, c) \<Rightarrow> (r, emit (e r) (s\<lparr>world := c\<rparr>)))"

text \<open>A wait suspends the goroutine: the world moves on, nothing is returned.\<close>

definition wait ::
  "('w, 'p, 'q) event \<Rightarrow> ('c \<Rightarrow> 'c) \<Rightarrow> ('c, 'w, 'p, 'q) sys \<Rightarrow> ('c, 'w, 'p, 'q) sys" where
  "wait e f s = emit e (s\<lparr>world := f (world s)\<rparr>)"

text \<open>The kinds of event the properties below speak of.\<close>

fun isCommitAttempt :: "('w, 'p, 'q) event \<Rightarrow> bool" where
  "isCommitAttempt (CallBuildCommitWorkerPayload worker nonce success) = True"
| "isCommitAttempt (CallBuildCommitReputerPayload reputer nonceHeight success) = True"
| "isCommitAttempt e = False"

fun isWait :: "('w, 'p, 'q) event \<Rightarrow> bool" where
  "isWait (CallWaitForNextAnticipatedWindowToStart w currentBlock epochLength) = True"
| "isWait (CallWaitForNextReputerAnticipatedWindowToStart w topic nonceHeight currentBlock) = True"
| "isWait CallWaitWithinAnticipatedWindow = True"
| "isWait e = False"

section \<open>The worker loop\<close>

text \<open>
  What one pass through the body of a \<open>for { ... }\<close> does to the goroutine: go round again
  with new local variables, \<open>return\<close>, or panic on a nil pointer.
\<close>

datatype 'st step = Continue 'st | Return | Panic

datatype outcome = Running | Returned | Panicked

text \<open>
  The local variables of a loop. Both loops have \<open>window\<close>; the reputer loop adds the
  nonce pointer and its three flags.
\<close>

record 'w loop_state =
  window :: 'w

record 'w worker_state = "'w loop_state" +
  mustRecalcWindow :: bool

record 'w reputer_state = "'w loop_state" +
  latestOpenReputerNonce :: "Nonce option"
  mustRecalcOpenNonceWindow :: bool
  mustGetOpenNonce :: bool
  mustRecalcReputerWindow :: bool

text \<open>
  The body of the worker loop, block by block. Lines 74 to 79: recompute the window when
  it is marked stale.
\<close>

definition workerRecalcWindow ::
  "('c, 'w, 'p, 'q) node \<Rightarrow> Topic \<Rightarrow> block_height \<Rightarrow> 'w worker_state \<Rightarrow>
   ('c, 'w, 'p, 'q) sys \<Rightarrow> 'w worker_state \<times> ('c, 'w, 'p, 'q) sys" where
  "workerRecalcWindow nd topic currentBlock st s =
    (if mustRecalcWindow st then
       (case call (CallCalcWorkerSoonestAnticipatedWindow topic currentBlock)
               (CalcWorkerSoonestAnticipatedWindow nd (window st) topic currentBlock) s of
          (w, s1) \<Rightarrow>
            (st\<lparr>window := w, mustRecalcWindow := False\<rparr>,
             emit (Log DebugLevel
               ''Worker anticipated window for topic %d open nonce. Open: %f Close $f %v'') s1))
     else (st, s))"

text \<open>
  Lines 82 to 103, the branch taken inside the window: fetch the nonce, decide whether to
  attempt, attempt, and wait. The nonce comes back as a pointer and is read at once, so a
  nil pointer is a panic.
\<close>

definition workerCommit ::
  "('c, 'w, 'p, 'q) node \<Rightarrow> 'p WorkerConfig \<Rightarrow> Topic \<Rightarrow> block_height \<Rightarrow> 'w worker_state \<Rightarrow>
   ('c, 'w, 'p, 'q) sys \<Rightarrow> 'w worker_state step \<times> ('c, 'w, 'p, 'q) sys" where
  "workerCommit nd worker topic currentBlock st s =
    (case call (CallGetLatestOpenWorkerNonceByTopicId (TopicId worker))
            (GetLatestOpenWorkerNonceByTopicId nd (TopicId worker)) s of
      ((None, err), s1) \<Rightarrow> (Panic, s1)
    | ((Some latestOpenWorkerNonce, err), s1) \<Rightarrow>
        let attemptCommit = \<not> (BlockHeight latestOpenWorkerNonce = 0 \<or> err \<noteq> None);
            s2 = (if attemptCommit then s1
                  else emit (Log ErrorLevel
                    ''Error getting latest open worker nonce on topic'') s1);
            s3 = emit (Log InfoLevel ''Got latest open worker nonce'') s2
        in
        if attemptCommit then
          (case callr (\<lambda>r. CallBuildCommitWorkerPayload worker latestOpenWorkerNonce (fst r))
                  (BuildCommitWorkerPayload nd worker latestOpenWorkerNonce) s3 of
            ((success, err), s4) \<Rightarrow>
              let s5 = (if err \<noteq> None then
                          emit (Log ErrorLevel
                            ''Error building and committing worker payload for topic'') s4
                        else s4)
              in
              if success then
                (Continue (st\<lparr>mustRecalcWindow := True\<rparr>),
                 wait (CallWaitForNextAnticipatedWindowToStart (window st) currentBlock
                         (EpochLength topic))
                   (WaitForNextAnticipatedWindowToStart nd (window st) currentBlock
                      (EpochLength topic)) s5)
              else
                (Continue st,
                 wait CallWaitWithinAnticipatedWindow (WaitWithinAnticipatedWindow nd) s5))
        else
          (Continue st,
           wait CallWaitWithinAnticipatedWindow (WaitWithinAnticipatedWindow nd) s3))"

text \<open>One iteration, lines 68 to 107.\<close>

definition workerIteration ::
  "('c, 'w, 'p, 'q) node \<Rightarrow> 'p WorkerConfig \<Rightarrow> Topic \<Rightarrow> 'w worker_state \<Rightarrow>
   ('c, 'w, 'p, 'q) sys \<Rightarrow> 'w worker_state step \<times> ('c, 'w, 'p, 'q) sys" where
  "workerIteration nd worker topic st s0 =
    (case callr (\<lambda>r. CallGetCurrentChainBlockHeight (fst r) (snd r))
            (GetCurrentChainBlockHeight nd) s0 of
      ((currentBlock, err), s1) \<Rightarrow>
      if err \<noteq> None then
        (Return, emit (Log ErrorLevel
            ''Error getting chain block height for worker job on topic'') s1)
      else
        (case workerRecalcWindow nd topic currentBlock st s1 of
          (st1, s2) \<Rightarrow>
          if BlockIsWithinWindow nd (window st1) currentBlock then
            workerCommit nd worker topic currentBlock st1 s2
          else
            (Continue st1,
             wait (CallWaitForNextAnticipatedWindowToStart (window st1) currentBlock
                     (EpochLength topic))
               (WaitForNextAnticipatedWindowToStart nd (window st1) currentBlock (EpochLength topic))
               (emit (Log DebugLevel ''Block %d is not within window. Open: %f Close: %f'') s2))))"

text \<open>
  The \<open>for\<close> loop never leaves by itself, so it is run on fuel: \<open>Running\<close> is the loop
  still going when the fuel is spent, and the trace is then a prefix of what it does.
\<close>

fun workerLoop ::
  "nat \<Rightarrow> ('c, 'w, 'p, 'q) node \<Rightarrow> 'p WorkerConfig \<Rightarrow> Topic \<Rightarrow> 'w worker_state \<Rightarrow>
   ('c, 'w, 'p, 'q) sys \<Rightarrow> outcome \<times> ('c, 'w, 'p, 'q) sys" where
  "workerLoop 0 nd worker topic st s = (Running, s)"
| "workerLoop (Suc k) nd worker topic st s =
    (case workerIteration nd worker topic st s of
      (Continue st', s') \<Rightarrow> workerLoop k nd worker topic st' s'
    | (Return, s') \<Rightarrow> (Returned, s')
    | (Panic, s') \<Rightarrow> (Panicked, s'))"

text \<open>
  The lines of \<open>runWorkerProcess\<close> before the loop: fetch the topic, register, and set
  up the local variables.
\<close>

definition workerStart ::
  "('c, 'w, 'p, 'q) node \<Rightarrow> 'p WorkerConfig \<Rightarrow> ('c, 'w, 'p, 'q) sys \<Rightarrow>
   (Topic \<times> 'w worker_state) step \<times> ('c, 'w, 'p, 'q) sys" where
  "workerStart nd worker s0 =
    (case call (CallGetTopicById (TopicId worker)) (GetTopicById nd (TopicId worker))
            (emit (Log InfoLevel ''Running worker process for topic'') s0) of
      ((topic, err), s1) \<Rightarrow>
      if err \<noteq> None then (Return, emit (Log ErrorLevel ''Failed to get topic'') s1)
      else
        (case call (CallRegisterWorkerIdempotently worker)
                (RegisterWorkerIdempotently nd worker) s1 of
          (registered, s2) \<Rightarrow>
          if \<not> registered then
            (Return, emit (Log ErrorLevel ''Failed to register worker for topic'') s2)
          else
            (Continue (topic, \<lparr>window = zeroWindow nd, mustRecalcWindow = True\<rparr>), s2)))"

definition runWorkerProcess ::
  "nat \<Rightarrow> ('c, 'w, 'p, 'q) node \<Rightarrow> 'p WorkerConfig \<Rightarrow> ('c, 'w, 'p, 'q) sys \<Rightarrow>
   outcome \<times> ('c, 'w, 'p, 'q) sys" where
  "runWorkerProcess k nd worker s0 =
    (case workerStart nd worker s0 of
      (Continue (topic, st), s) \<Rightarrow> workerLoop k nd worker topic st s
    | (Return, s) \<Rightarrow> (Returned, s)
    | (Panic, s) \<Rightarrow> (Panicked, s))"

section \<open>The reputer loop\<close>

text \<open>
  The body of the reputer loop, block by block. Two of the blocks can leave the iteration
  early, by the \<open>continue\<close> after a nonce fetch that gave nothing or by reading through
  a nil pointer: \<open>Inl\<close> is such an exit, \<open>Inr\<close> goes on to the next block.

  Lines 139 to 143: recompute the window in which the worker nonce opens.
\<close>

definition reputerRecalcOpenNonceWindow ::
  "('c, 'w, 'p, 'q) node \<Rightarrow> Topic \<Rightarrow> block_height \<Rightarrow> 'w reputer_state \<Rightarrow>
   ('c, 'w, 'p, 'q) sys \<Rightarrow> 'w reputer_state \<times> ('c, 'w, 'p, 'q) sys" where
  "reputerRecalcOpenNonceWindow nd topic currentBlock st s =
    (if mustRecalcOpenNonceWindow st then
       (case call (CallCalcWorkerSoonestAnticipatedWindow topic currentBlock)
               (CalcWorkerSoonestAnticipatedWindow nd (window st) topic currentBlock) s of
          (w, s1) \<Rightarrow>
            (st\<lparr>window := w, mustRecalcOpenNonceWindow := False\<rparr>,
             emit (Log DebugLevel
               ''Reputer anticipated window for open nonce for topic %d: %v'') s1))
     else (st, s))"

text \<open>
  Lines 145 to 154: fetch the open nonce. The fetch assigns \<open>latestOpenReputerNonce\<close>
  before the nonce is inspected, so the variable keeps whatever came back.
\<close>

definition reputerGetOpenNonce ::
  "('c, 'w, 'p, 'q) node \<Rightarrow> 'q ReputerConfig \<Rightarrow> block_height \<Rightarrow> 'w reputer_state \<Rightarrow>
   ('c, 'w, 'p, 'q) sys \<Rightarrow>
   ('w reputer_state step \<times> ('c, 'w, 'p, 'q) sys) + ('w reputer_state \<times> ('c, 'w, 'p, 'q) sys)" where
  "reputerGetOpenNonce nd reputer currentBlock st s =
    (if mustGetOpenNonce st \<and> BlockIsWithinWindow nd (window st) currentBlock then
       (case call (CallGetLatestOpenWorkerNonceByTopicId (TopicId reputer))
               (GetLatestOpenWorkerNonceByTopicId nd (TopicId reputer)) s of
         ((None, err), s1) \<Rightarrow>
           Inl (Panic, s1)
       | ((Some nonce, err), s1) \<Rightarrow>
           let s2 = emit (Println (BlockHeight nonce)) s1 in
           if BlockHeight nonce = 0 \<or> err \<noteq> None then
             Inl (Continue (st\<lparr>latestOpenReputerNonce := Some nonce, mustGetOpenNonce := True\<rparr>),
                  emit (Log ErrorLevel ''Error getting latest open reputer nonce on topic'') s2)
           else
             Inr (st\<lparr>latestOpenReputerNonce := Some nonce, mustGetOpenNonce := False\<rparr>, s2))
     else Inr (st, s))"

text \<open>
  Lines 156 to 160: recompute the submission window from the nonce's block height. The
  computation returns a pointer that is read at once.
\<close>

definition reputerRecalcWindow ::
  "('c, 'w, 'p, 'q) node \<Rightarrow> Topic \<Rightarrow> 'w reputer_state \<Rightarrow> ('c, 'w, 'p, 'q) sys \<Rightarrow>
   ('w reputer_state step \<times> ('c, 'w, 'p, 'q) sys) + ('w reputer_state \<times> ('c, 'w, 'p, 'q) sys)" where
  "reputerRecalcWindow nd topic st s =
    (if mustRecalcReputerWindow st then
       (case latestOpenReputerNonce st of
         None \<Rightarrow> Inl (Panic, s)
       | Some nonce \<Rightarrow>
           let s1 = emit (CallCalcReputerSoonestAnticipatedWindow topic (BlockHeight nonce)) s in
           (case CalcReputerSoonestAnticipatedWindow nd (window st) topic (BlockHeight nonce) of
             None \<Rightarrow> Inl (Panic, s1)
           | Some w \<Rightarrow>
               Inr (st\<lparr>window := w, mustRecalcReputerWindow := False\<rparr>,
                    emit (Log DebugLevel
                      ''Reputer anticipated window for submission for topic %d: %v'') s1)))
     else Inr (st, s))"

text \<open>Lines 162 to 179: attempt the commit inside the submission window, wait outside it.\<close>

definition reputerCommit ::
  "('c, 'w, 'p, 'q) node \<Rightarrow> 'q ReputerConfig \<Rightarrow> Topic \<Rightarrow> block_height \<Rightarrow> 'w reputer_state \<Rightarrow>
   ('c, 'w, 'p, 'q) sys \<Rightarrow> 'w reputer_state step \<times> ('c, 'w, 'p, 'q) sys" where
  "reputerCommit nd reputer topic currentBlock st s =
    (if BlockIsWithinReputerWindow nd (window st) currentBlock then
       (case latestOpenReputerNonce st of
         None \<Rightarrow> (Panic, s)
       | Some nonce \<Rightarrow>
           (case callr (\<lambda>r. CallBuildCommitReputerPayload reputer (BlockHeight nonce) (fst r))
                   (BuildCommitReputerPayload nd reputer (BlockHeight nonce)) s of
             ((success, err), s1) \<Rightarrow>
               let s2 = (if err \<noteq> None then
                           emit (Log ErrorLevel
                             ''Error building and committing worker payload for topic'') s1
                         else s1)
               in
               if success then
                 (Continue (st\<lparr>mustRecalcOpenNonceWindow := True,
                               mustGetOpenNonce := True,
                               mustRecalcReputerWindow := True\<rparr>),
                  wait (CallWaitForNextAnticipatedWindowToStart (window st) currentBlock
                         (EpochLength topic))
                    (WaitForNextAnticipatedWindowToStart nd (window st) currentBlock
                       (EpochLength topic)) s2)
               else
                 (Continue st,
                  wait CallWaitWithinAnticipatedWindow (WaitWithinAnticipatedWindow nd) s2)))
     else
       (case latestOpenReputerNonce st of
         None \<Rightarrow> (Panic, s)
       | Some nonce \<Rightarrow>
           (Continue st,
            wait (CallWaitForNextReputerAnticipatedWindowToStart (window st) topic
                    (BlockHeight nonce) currentBlock)
              (WaitForNextReputerAnticipatedWindowToStart nd (window st) topic
                 (BlockHeight nonce) currentBlock) s)))"

text \<open>One iteration, lines 132 to 179.\<close>

definition reputerIteration ::
  "('c, 'w, 'p, 'q) node \<Rightarrow> 'q ReputerConfig \<Rightarrow> Topic \<Rightarrow> 'w reputer_state \<Rightarrow>
   ('c, 'w, 'p, 'q) sys \<Rightarrow> 'w reputer_state step \<times> ('c, 'w, 'p, 'q) sys" where
  "reputerIteration nd reputer topic st s0 =
    (case callr (\<lambda>r. CallGetCurrentChainBlockHeight (fst r) (snd r))
            (GetCurrentChainBlockHeight nd) s0 of
      ((currentBlock, err), s1) \<Rightarrow>
      if err \<noteq> None then
        (Return, emit (Log ErrorLevel
            ''Error getting chain block height for reputer job on topic'') s1)
      else
        (case reputerRecalcOpenNonceWindow nd topic currentBlock st s1 of
          (st1, s2) \<Rightarrow>
          (case reputerGetOpenNonce nd reputer currentBlock st1 s2 of
            Inl exit \<Rightarrow> exit
          | Inr (st2, s3) \<Rightarrow>
            (case reputerRecalcWindow nd topic st2 s3 of
              Inl exit \<Rightarrow> exit
            | Inr (st3, s4) \<Rightarrow> reputerCommit nd reputer topic currentBlock st3 s4))))"

fun reputerLoop ::
  "nat \<Rightarrow> ('c, 'w, 'p, 'q) node \<Rightarrow> 'q ReputerConfig \<Rightarrow> Topic \<Rightarrow> 'w reputer_state \<Rightarrow>
   ('c, 'w, 'p, 'q) sys \<Rightarrow> outcome \<times> ('c, 'w, 'p, 'q) sys" where
  "reputerLoop 0 nd reputer topic st s = (Running, s)"
| "reputerLoop (Suc k) nd reputer topic st s =
    (case reputerIteration nd reputer topic st s of
      (Continue st', s') \<Rightarrow> reputerLoop k nd reputer topic st' s'
    | (Return, s') \<Rightarrow> (Returned, s')
    | (Panic, s') \<Rightarrow> (Panicked, s'))"

definition reputerStart ::
  "('c, 'w, 'p, 'q) node \<Rightarrow> 'q ReputerConfig \<Rightarrow> ('c, 'w, 'p, 'q) sys \<Rightarrow>
   (Topic \<times> 'w reputer_state) step \<times> ('c, 'w, 'p, 'q) sys" where
  "reputerStart nd reputer s0 =
    (case call (CallGetTopicById (TopicId reputer)) (GetTopicById nd (TopicId reputer))
            (emit (Log DebugLevel ''Running reputer process for topic'') s0) of
      ((topic, err), s1) \<Rightarrow>
      if err \<noteq> None then (Return, emit (Log ErrorLevel ''Failed to get topic'') s1)
      else
        (case call (CallRegisterAndStakeReputerIdempotently reputer)
                (RegisterAndStakeReputerIdempotently nd reputer) s1 of
          (registeredAndStaked, s2) \<Rightarrow>
          if \<not> registeredAndStaked then
            (Return, emit (Log ErrorLevel
               ''Failed to register or sufficiently stake reputer for topic'') s2)
          else
            (Continue (topic,
               \<lparr>window = zeroWindow nd, latestOpenReputerNonce = None,
                mustRecalcOpenNonceWindow = True, mustGetOpenNonce = True,
                mustRecalcReputerWindow = True\<rparr>), s2)))"

definition runReputerProcess ::
  "nat \<Rightarrow> ('c, 'w, 'p, 'q) node \<Rightarrow> 'q ReputerConfig \<Rightarrow> ('c, 'w, 'p, 'q) sys \<Rightarrow>
   outcome \<times> ('c, 'w, 'p, 'q) sys" where
  "runReputerProcess k nd reputer s0 =
    (case reputerStart nd reputer s0 of
      (Continue (topic, st), s) \<Rightarrow> reputerLoop k nd reputer topic st s
    | (Return, s) \<Rightarrow> (Returned, s)
    | (Panic, s) \<Rightarrow> (Panicked, s))"

section \<open>The dispatcher\<close>

text \<open>
  \<open>Spawn\<close> walks the configured workers, then the configured reputers, each with a map of
  the topic ids already seen, and starts a goroutine for every entry it does not skip. The
  result is the goroutines started, in the order of the \<open>go\<close> statements, and the log.
\<close>

datatype ('p, 'q) goroutine =
    RunWorkerProcess "'p WorkerConfig"
  | RunReputerProcess "'q ReputerConfig"

fun startWorkers ::
  "(topic_id \<rightharpoonup> bool) \<Rightarrow> 'p WorkerConfig list \<Rightarrow>
   ('p, 'q) goroutine list \<times> ('w, 'p, 'q) event list" where
  "startWorkers alreadyStartedWorkerForTopic [] = ([], [])"
| "startWorkers alreadyStartedWorkerForTopic (worker # rest) =
    (case alreadyStartedWorkerForTopic (TopicId worker) of
      Some ok \<Rightarrow>
        (case startWorkers alreadyStartedWorkerForTopic rest of
          (gs, logs) \<Rightarrow> (gs, Log DebugLevel ''Worker already started for topicId'' # logs))
    | None \<Rightarrow>
        (case startWorkers (alreadyStartedWorkerForTopic(TopicId worker \<mapsto> True)) rest of
          (gs, logs) \<Rightarrow> (RunWorkerProcess worker # gs, logs)))"

fun startReputers ::
  "(topic_id \<rightharpoonup> bool) \<Rightarrow> 'q ReputerConfig list \<Rightarrow>
   ('p, 'q) goroutine list \<times> ('w, 'p, 'q) event list" where
  "startReputers alreadyStartedReputerForTopic [] = ([], [])"
| "startReputers alreadyStartedReputerForTopic (reputer # rest) =
    (case alreadyStartedReputerForTopic (TopicId reputer) of
      Some ok \<Rightarrow>
        (case startReputers alreadyStartedReputerForTopic rest of
          (gs, logs) \<Rightarrow> (gs, Log DebugLevel ''Reputer already started for topicId'' # logs))
    | None \<Rightarrow>
        (case startReputers (alreadyStartedReputerForTopic(TopicId reputer \<mapsto> True)) rest of
          (gs, logs) \<Rightarrow> (RunReputerProcess reputer # gs, logs)))"

definition Spawn ::
  "'p WorkerConfig list \<Rightarrow> 'q ReputerConfig list \<Rightarrow>
   ('p, 'q) goroutine list \<times> ('w, 'p, 'q) event list" where
  "Spawn workers reputers =
    (case startWorkers Map.empty workers of
      (ws, wlogs) \<Rightarrow>
        (case startReputers Map.empty reputers of
          (rs, rlogs) \<Rightarrow> (ws @ rs, wlogs @ rlogs)))"

text \<open>
  What the specification says the dispatcher keeps: of the entries with the same topic id,
  the first.
\<close>

fun firstPerTopic :: "('a ActorConfig_scheme) list \<Rightarrow> ('a ActorConfig_scheme) list" where
  "firstPerTopic [] = []"
| "firstPerTopic (c # cs) = c # firstPerTopic (filter (\<lambda>d. TopicId d \<noteq> TopicId c) cs)"

text \<open>The worker and the reputer configurations among the goroutines started.\<close>

fun launchedWorkers :: "('p, 'q) goroutine list \<Rightarrow> 'p WorkerConfig list" where
  "launchedWorkers [] = []"
| "launchedWorkers (RunWorkerProcess w # gs) = w # launchedWorkers gs"
| "launchedWorkers (RunReputerProcess r # gs) = launchedWorkers gs"

fun launchedReputers :: "('p, 'q) goroutine list \<Rightarrow> 'q ReputerConfig list" where
  "launchedReputers [] = []"
| "launchedReputers (RunWorkerProcess w # gs) = launchedReputers gs"
| "launchedReputers (RunReputerProcess r # gs) = r # launchedReputers gs"

section \<open>Goroutines running side by side\<close>

text \<open>
  A goroutine is about to start, or is inside its loop with its own local variables, or has
  returned. The goroutines share nothing but the outside world. The scheduler picks a
  goroutine and lets it run the lines before its loop, or one iteration. A \<open>return\<close> ends
  that goroutine; an unrecovered panic ends the whole process, as Go has it.
\<close>

datatype ('w, 'p, 'q) task =
    WorkerStarting "'p WorkerConfig"
  | WorkerLooping "'p WorkerConfig" Topic "'w worker_state"
  | ReputerStarting "'q ReputerConfig"
  | ReputerLooping "'q ReputerConfig" Topic "'w reputer_state"
  | Done

fun launch :: "('p, 'q) goroutine \<Rightarrow> ('w, 'p, 'q) task" where
  "launch (RunWorkerProcess worker) = WorkerStarting worker"
| "launch (RunReputerProcess reputer) = ReputerStarting reputer"

fun stepTask ::
  "('c, 'w, 'p, 'q) node \<Rightarrow> ('w, 'p, 'q) task \<Rightarrow> ('c, 'w, 'p, 'q) sys \<Rightarrow>
   ('w, 'p, 'q) task option \<times> ('c, 'w, 'p, 'q) sys" where
  "stepTask nd (WorkerStarting worker) s =
    (case workerStart nd worker s of
      (Continue (topic, st), s') \<Rightarrow> (Some (WorkerLooping worker topic st), s')
    | (Return, s') \<Rightarrow> (Some Done, s')
    | (Panic, s') \<Rightarrow> (None, s'))"
| "stepTask nd (WorkerLooping worker topic st) s =
    (case workerIteration nd worker topic st s of
      (Continue st', s') \<Rightarrow> (Some (WorkerLooping worker topic st'), s')
    | (Return, s') \<Rightarrow> (Some Done, s')
    | (Panic, s') \<Rightarrow> (None, s'))"
| "stepTask nd (ReputerStarting reputer) s =
    (case reputerStart nd reputer s of
      (Continue (topic, st), s') \<Rightarrow> (Some (ReputerLooping reputer topic st), s')
    | (Return, s') \<Rightarrow> (Some Done, s')
    | (Panic, s') \<Rightarrow> (None, s'))"
| "stepTask nd (ReputerLooping reputer topic st) s =
    (case reputerIteration nd reputer topic st s of
      (Continue st', s') \<Rightarrow> (Some (ReputerLooping reputer topic st'), s')
    | (Return, s') \<Rightarrow> (Some Done, s')
    | (Panic, s') \<Rightarrow> (None, s'))"
| "stepTask nd Done s = (Some Done, s)"

record ('w, 'p, 'q) process =
  goroutines :: "('w, 'p, 'q) task list"
  crashed :: bool

definition schedule ::
  "('c, 'w, 'p, 'q) node \<Rightarrow> nat \<Rightarrow> ('w, 'p, 'q) process \<times> ('c, 'w, 'p, 'q) sys \<Rightarrow>
   ('w, 'p, 'q) process \<times> ('c, 'w, 'p, 'q) sys" where
  "schedule nd i ps =
    (case ps of (p, s) \<Rightarrow>
      if crashed p \<or> length (goroutines p) \<le> i then (p, s)
      else
        (case stepTask nd (goroutines p ! i) s of
          (Some t, s') \<Rightarrow> (p\<lparr>goroutines := (goroutines p)[i := t]\<rparr>, s')
        | (None, s') \<Rightarrow> (p\<lparr>crashed := True\<rparr>, s')))"

text \<open>
  \<open>Spawn\<close> as a whole: start the goroutines, then let them run in the order a schedule
  gives. \<open>wg.Wait()\<close> returns once every goroutine is \<open>Done\<close>.
\<close>

definition runSpawn ::
  "('c, 'w, 'p, 'q) node \<Rightarrow> 'p WorkerConfig list \<Rightarrow> 'q ReputerConfig list \<Rightarrow> nat list \<Rightarrow>
   ('c, 'w, 'p, 'q) sys \<Rightarrow> ('w, 'p, 'q) process \<times> ('c, 'w, 'p, 'q) sys" where
  "runSpawn nd workers reputers sched s0 =
    (case Spawn workers reputers of
      (gs, logs) \<Rightarrow>
        foldl (\<lambda>ps i. schedule nd i ps)
          (\<lparr>goroutines = map launch gs, crashed = False\<rparr>, s0\<lparr>trace := trace s0 @ logs\<rparr>)
          sched)"

definition waitGroupDone :: "('w, 'p, 'q) process \<Rightarrow> bool" where
  "waitGroupDone p = (\<not> crashed p \<and> list_all (\<lambda>t. t = Done) (goroutines p))"

section \<open>A scripted chain\<close>

text \<open>
  To run the loops on concrete inputs, a collaborator that answers from a script: the
  block heights the chain reports, the windows the worker window computation yields, the
  answers to the nonce query and to the commits, each consumed front to back. A height
  query past the end of the script fails, so every scripted run returns. Windows are
  closed block-height intervals; the reputer window spans the epoch after the one the
  nonce opened in. The waits return at once: the heights of the script already say when
  the loop looks at the chain again.
\<close>

record chain =
  heights :: "(block_height \<times> error) list"
  windows :: "(block_height \<times> block_height) list"
  nonces :: "(Nonce option \<times> error) list"
  commits :: "(bool \<times> error) list"

definition within :: "block_height \<times> block_height \<Rightarrow> block_height \<Rightarrow> bool" where
  "within w b = (fst w \<le> b \<and> b \<le> snd w)"

definition scriptedNode ::
  "Topic \<times> error \<Rightarrow> bool \<Rightarrow> (chain, block_height \<times> block_height, 'p, 'q) node" where
  "scriptedNode topicAnswer registered =
    \<lparr>GetTopicById = (\<lambda>topicId c. (topicAnswer, c)),
     RegisterWorkerIdempotently = (\<lambda>worker c. (registered, c)),
     RegisterAndStakeReputerIdempotently = (\<lambda>reputer c. (registered, c)),
     GetCurrentChainBlockHeight =
       (\<lambda>c. case heights c of
               [] \<Rightarrow> ((0, Some ''chain unreachable''), c)
             | h # hs \<Rightarrow> (h, c\<lparr>heights := hs\<rparr>)),
     GetLatestOpenWorkerNonceByTopicId =
       (\<lambda>topicId c. case nonces c of
               [] \<Rightarrow> ((Some \<lparr>BlockHeight = 0\<rparr>, None), c)
             | n # ns \<Rightarrow> (n, c\<lparr>nonces := ns\<rparr>)),
     BuildCommitWorkerPayload =
       (\<lambda>worker nonce c. case commits c of
               [] \<Rightarrow> ((False, Some ''commit rejected''), c)
             | r # rs \<Rightarrow> (r, c\<lparr>commits := rs\<rparr>)),
     BuildCommitReputerPayload =
       (\<lambda>reputer nonceHeight c. case commits c of
               [] \<Rightarrow> ((False, Some ''commit rejected''), c)
             | r # rs \<Rightarrow> (r, c\<lparr>commits := rs\<rparr>)),
     zeroWindow = (0, 0),
     CalcWorkerSoonestAnticipatedWindow =
       (\<lambda>w topic currentBlock c. case windows c of
               [] \<Rightarrow> (w, c)
             | x # xs \<Rightarrow> (x, c\<lparr>windows := xs\<rparr>)),
     CalcReputerSoonestAnticipatedWindow =
       (\<lambda>w topic nonceHeight.
          Some (nonceHeight + EpochLength topic, nonceHeight + 2 * EpochLength topic)),
     BlockIsWithinWindow = within,
     BlockIsWithinReputerWindow = within,
     WaitForNextAnticipatedWindowToStart = (\<lambda>w currentBlock epochLength c. c),
     WaitForNextReputerAnticipatedWindowToStart = (\<lambda>w topic nonceHeight currentBlock c. c),
     WaitWithinAnticipatedWindow = (\<lambda>c. c)\<rparr>"

definition topic7 :: Topic where
  "topic7 = \<lparr>Id = 7, EpochLength = 100\<rparr>"

definition worker7 :: "string WorkerConfig" where
  "worker7 = \<lparr>TopicId = 7, WorkerParams = ''first''\<rparr>"

definition reputer7 :: "string ReputerConfig" where
  "reputer7 = \<lparr>TopicId = 7, ReputerParams = ''first''\<rparr>"

definition start :: "'c \<Rightarrow> ('c, 'w, 'p, 'q) sys" where
  "start c = \<lparr>world = c, trace = []\<rparr>"

section \<open>One commit per window and per epoch cycle\<close>

text \<open>
  Events on the way to a commit neither attempt one nor wait.
\<close>

definition quiet :: "('w, 'p, 'q) event \<Rightarrow> bool" where
  "quiet e = (\<not> isCommitAttempt e \<and> \<not> isWait e)"

text \<open>
  A check runs over a trace from the front and stops with \<open>None\<close> at the first event it
  rejects.
\<close>

fun scan :: "('s \<Rightarrow> 'e \<Rightarrow> 's option) \<Rightarrow> 's \<Rightarrow> 'e list \<Rightarrow> 's option" where
  "scan step c [] = Some c"
| "scan step c (e # es) = (case step c e of None \<Rightarrow> None | Some c' \<Rightarrow> scan step c' es)"

text \<open>
  Where the worker is in its cycle: \<open>Stale\<close>, the window has to be computed before
  anything is attempted; \<open>Open\<close>, a window is computed and no commit has succeeded in it;
  \<open>Committed\<close>, a commit has just succeeded. The check rejects a commit attempt on a stale
  window, and after a successful commit anything but log lines followed by the wait for
  the next window, which makes the window stale.
\<close>

datatype cycle = Stale | Open | Committed


text \<open>
  The number of successful worker commits before the first window computation, then
  between each window computation and the next.
\<close>

fun successesPerWindow :: "('w, 'p, 'q) event list \<Rightarrow> nat list" where
  "successesPerWindow [] = [0]"
| "successesPerWindow (CallCalcWorkerSoonestAnticipatedWindow topic currentBlock # es) =
     0 # successesPerWindow es"
| "successesPerWindow (CallBuildCommitWorkerPayload worker nonce True # es) =
     Suc (hd (successesPerWindow es)) # tl (successesPerWindow es)"
| "successesPerWindow (e # es) = successesPerWindow es"

text \<open>
  The heights at which commits succeed: a commit is made at the last height the chain
  reported to the loop.
\<close>

fun successHeights :: "block_height \<Rightarrow> ('w, 'p, 'q) event list \<Rightarrow> block_height list" where
  "successHeights h [] = []"
| "successHeights h (CallGetCurrentChainBlockHeight h' err # es) =
     successHeights (if err = None then h' else h) es"
| "successHeights h (CallBuildCommitWorkerPayload worker nonce success # es) =
     (if success then h # successHeights h es else successHeights h es)"
| "successHeights h (e # es) = successHeights h es"

text \<open>
  Modelled from the spec: the epoch cycles of a topic. The epoch length \<open>E\<close> is the number
  of blocks per recurring scheduling cycle, so the cycles are the stretches of \<open>E\<close> blocks
  counted from a block \<open>anchor\<close> at which one of them starts, and the block height \<open>h\<close>
  lies in the cycle numbered \<open>(h - anchor) div E\<close>.
\<close>

definition epochCycle :: "block_height \<Rightarrow> block_height \<Rightarrow> block_height \<Rightarrow> int" where
  "epochCycle anchor E h = (h - anchor) div E"


text \<open>
  Modelled from the spec: the block at which the wait for the next window is over. The
  wait suspends the loop until the estimated start of the next window, computed from the
  distance in blocks to the window's lower bound. While the current block is before that
  bound the window is still to come and starts there; from the bound on, the next window
  starts one epoch length later (in the specification's scenario, with epoch length 100,
  the commit in the window that opens at 50 is followed by a sleep until about 150).
  Counting the epoch from the current block instead would only make the sleep longer.
\<close>

definition nextWindowStart ::
  "('w \<Rightarrow> block_height) \<Rightarrow> 'w \<Rightarrow> block_height \<Rightarrow> block_height \<Rightarrow> block_height" where
  "nextWindowStart lower w currentBlock epochLength =
    (if currentBlock < lower w then lower w else lower w + epochLength)"


text \<open>
  The pace of the worker over the trace of a run: \<open>height\<close> is the last height the chain
  reported, \<open>succeeded\<close> says that a commit has succeeded and the wait that follows it has
  not been called yet, \<open>closed\<close> holds the windows that wait was called on, and \<open>cycles\<close>
  the epoch cycles of the heights at which a commit succeeded. The check rejects
  \<^item> a height report that is not past every window of \<open>closed\<close>, or not in a cycle after
    every cycle of \<open>cycles\<close>: the loop looks at the chain again only when the window it
    committed in is over and the next epoch cycle has begun;
  \<^item> a commit attempt made before the wait that follows a successful commit, or at a
    height that is not in a cycle after every cycle of \<open>cycles\<close>;
  \<^item> a wait after a successful commit that is not called with the height the commit
    was made at and the epoch length \<open>E\<close>.
\<close>

record 'w pace =
  height :: block_height
  succeeded :: bool
  closed :: "'w list"
  cycles :: "int list"

fun paceStep ::
  "('w \<Rightarrow> block_height) \<Rightarrow> block_height \<Rightarrow> block_height \<Rightarrow> 'w pace \<Rightarrow> ('w, 'p, 'q) event \<Rightarrow>
   'w pace option" where
  "paceStep upper anchor E p (CallGetCurrentChainBlockHeight h err) =
     (if err \<noteq> None then Some p
      else if list_all (\<lambda>w. upper w < h) (closed p) \<and>
              list_all (\<lambda>m. m < epochCycle anchor E h) (cycles p)
      then Some (p\<lparr>height := h\<rparr>) else None)"
| "paceStep upper anchor E p (CallBuildCommitWorkerPayload worker nonce success) =
     (if \<not> succeeded p \<and> list_all (\<lambda>m. m < epochCycle anchor E (height p)) (cycles p)
      then Some (if success
                 then p\<lparr>succeeded := True, cycles := epochCycle anchor E (height p) # cycles p\<rparr>
                 else p)
      else None)"
| "paceStep upper anchor E p (CallWaitForNextAnticipatedWindowToStart w currentBlock epochLength) =
     (if succeeded p then
        (if currentBlock = height p \<and> epochLength = E
         then Some (p\<lparr>succeeded := False, closed := w # closed p\<rparr>) else None)
      else Some p)"
| "paceStep upper anchor E p e = Some p"

definition initialPace :: "'w pace" where
  "initialPace = \<lparr>height = 0, succeeded = False, closed = [], cycles = []\<rparr>"


text \<open>
  A chain that keeps time, to run the loops against the contract, after the scenario of
  the specification. The world is the chain's block height and every call takes one
  block. The epoch cycles are 100 blocks long and start at 50, 150, 250 and so on; the
  window of a cycle is its first ten blocks, and the window computation answers with the
  first window that is not over. The nonce that is open is the one of the start of the
  current cycle, none before block 50. Commits are accepted or rejected as \<open>accepts\<close>
  says. The wait for the next window sleeps until \<open>nextWindowStart\<close>, the reputer's until
  its window opens, and the short wait takes one block.
\<close>

definition clockNode ::
  "bool \<Rightarrow> (block_height, block_height \<times> block_height, string, string) node" where
  "clockNode accepts =
    \<lparr>GetTopicById = (\<lambda>topicId c. ((\<lparr>Id = topicId, EpochLength = 100\<rparr>, None), c + 1)),
     RegisterWorkerIdempotently = (\<lambda>worker c. (True, c + 1)),
     RegisterAndStakeReputerIdempotently = (\<lambda>reputer c. (True, c + 1)),
     GetCurrentChainBlockHeight = (\<lambda>c. ((c, None), c + 1)),
     GetLatestOpenWorkerNonceByTopicId =
       (\<lambda>topicId c.
          ((Some \<lparr>BlockHeight = (if c < 50 then 0 else c - (c - 50) mod 100)\<rparr>, None), c + 1)),
     BuildCommitWorkerPayload =
       (\<lambda>worker nonce c. ((accepts, if accepts then None else Some ''commit rejected''), c + 1)),
     BuildCommitReputerPayload =
       (\<lambda>reputer nonceHeight c.
          ((accepts, if accepts then None else Some ''commit rejected''), c + 1)),
     zeroWindow = (0, 0),
     CalcWorkerSoonestAnticipatedWindow =
       (\<lambda>w topic currentBlock c.
          ((50 + EpochLength topic * ((currentBlock - 60 + EpochLength topic - 1) div EpochLength topic),
            50 + EpochLength topic * ((currentBlock - 60 + EpochLength topic - 1) div EpochLength topic)
               + 10), c)),
     CalcReputerSoonestAnticipatedWindow =
       (\<lambda>w topic nonceHeight.
          Some (nonceHeight + EpochLength topic, nonceHeight + 2 * EpochLength topic)),
     BlockIsWithinWindow = within,
     BlockIsWithinReputerWindow = within,
     WaitForNextAnticipatedWindowToStart =
       (\<lambda>w currentBlock epochLength c. max c (nextWindowStart fst w currentBlock epochLength)),
     WaitForNextReputerAnticipatedWindowToStart =
       (\<lambda>w topic nonceHeight currentBlock c. max c (fst w)),
     WaitWithinAnticipatedWindow = (\<lambda>c. c + 1)\<rparr>"

text \<open>
  A scripted chain that accepts two commits at heights 100 and 101 while the window
  computation answers 100 to 110 both times.
\<close>

definition hastyChain :: chain where
  "hastyChain =
    \<lparr>heights = [(100, None), (101, None)], windows = [(100, 110), (100, 110)],
     nonces = [(Some \<lparr>BlockHeight = 100\<rparr>, None), (Some \<lparr>BlockHeight = 100\<rparr>, None)],
     commits = [(True, None), (True, None)]\<rparr>"

section \<open>Concrete configurations and chains\<close>

definition worker7' :: "string WorkerConfig" where
  "worker7' = \<lparr>TopicId = 7, WorkerParams = ''second''\<rparr>"

definition worker9 :: "string WorkerConfig" where
  "worker9 = \<lparr>TopicId = 9, WorkerParams = ''third''\<rparr>"

definition reputer7' :: "string ReputerConfig" where
  "reputer7' = \<lparr>TopicId = 7, ReputerParams = ''second''\<rparr>"

text \<open>
  The scripted collaborator for string-valued configurations: one that knows the topic
  and registers, one that refuses the registration, one that does not know the topic.
\<close>

definition registeringNode :: "(chain, block_height \<times> block_height, string, string) node" where
  "registeringNode = scriptedNode (topic7, None) True"

definition refusingNode :: "(chain, block_height \<times> block_height, string, string) node" where
  "refusingNode = scriptedNode (topic7, None) False"

definition topiclessNode :: "(chain, block_height \<times> block_height, string, string) node" where
  "topiclessNode = scriptedNode (topic7, Some ''no such topic'') True"

text \<open>A chain that cannot be reached: every height query fails.\<close>

definition unreachableChain :: chain where
  "unreachableChain = \<lparr>heights = [], windows = [], nonces = [], commits = []\<rparr>"


definition settledWorker :: "(block_height \<times> block_height) worker_state" where
  "settledWorker = \<lparr>window = (100, 110), mustRecalcWindow = False\<rparr>"

text \<open>
  The variables of a reputer loop that holds the nonce of height 50 and has computed its
  submission window from it.
\<close>

definition settledReputer :: "(block_height \<times> block_height) reputer_state" where
  "settledReputer =
    \<lparr>window = (150, 250), latestOpenReputerNonce = Some \<lparr>BlockHeight = 50\<rparr>,
     mustRecalcOpenNonceWindow = False, mustGetOpenNonce = False,
     mustRecalcReputerWindow = False\<rparr>"

section \<open>The world at the commit\<close>


text \<open>
  The same for the reputer loop and line 162: after the height query of line 132, the
  window computation of line 140 when the flag asks for it, and the nonce query of line
  146 when a nonce is needed and the block is within the window. The computation of line
  157 does not touch the world.
\<close>

definition reputerCommitEntry ::
  "('c, 'w, 'p, 'q) node \<Rightarrow> 'q ReputerConfig \<Rightarrow> Topic \<Rightarrow> 'w reputer_state \<Rightarrow> 'c \<Rightarrow> 'c" where
  "reputerCommitEntry nd reputer topic st c =
    (case GetCurrentChainBlockHeight nd c of
      ((currentBlock, err), c1) \<Rightarrow>
        (case (if mustRecalcOpenNonceWindow st
               then CalcWorkerSoonestAnticipatedWindow nd (window st) topic currentBlock c1
               else (window st, c1)) of
          (w, c2) \<Rightarrow>
            if mustGetOpenNonce st \<and> BlockIsWithinWindow nd w currentBlock
            then snd (GetLatestOpenWorkerNonceByTopicId nd (TopicId reputer) c2)
            else c2))"




text \<open>
  What the reputer does on that chain in one iteration that starts at block 160 from
  \<open>settledReputer\<close>, when commits are accepted and when they are rejected.
\<close>

definition reputerAccepted :: "(block_height \<times> block_height, string, string) event list" where
  "reputerAccepted =
    [CallGetCurrentChainBlockHeight 160 None,
     CallBuildCommitReputerPayload reputer7 50 True,
     CallWaitForNextAnticipatedWindowToStart (150, 250) 160 100]"

definition reputerRejected :: "(block_height \<times> block_height, string, string) event list" where
  "reputerRejected =
    [CallGetCurrentChainBlockHeight 160 None,
     CallBuildCommitReputerPayload reputer7 50 False,
     Log ErrorLevel ''Error building and committing worker payload for topic'',
     CallWaitWithinAnticipatedWindow]"

section \<open>The absent nonce\<close>

text \<open>
  A commit attempt carries an open nonce when the block height of its nonce is not the
  \<open>0\<close> that stands for no nonce.
\<close>

fun carriesOpenNonce :: "('w, 'p, 'q) event \<Rightarrow> bool" where
  "carriesOpenNonce (CallBuildCommitWorkerPayload worker nonce success) = (BlockHeight nonce \<noteq> 0)"
| "carriesOpenNonce (CallBuildCommitReputerPayload reputer nonceHeight success) = (nonceHeight \<noteq> 0)"
| "carriesOpenNonce e = True"

text \<open>
  A chain on which the nonce query answers with the absent nonce: the first height, 100,
  is inside the window of the open nonce, which is 100 to 110, and the next height, 120,
  is past it. And a chain whose first height, 100, is before the window, 150 to 160.
\<close>

definition sentinelChain :: chain where
  "sentinelChain =
    \<lparr>heights = [(100, None), (120, None)], windows = [(100, 110)],
     nonces = [(Some \<lparr>BlockHeight = 0\<rparr>, None)], commits = [(True, None)]\<rparr>"

definition earlyChain :: chain where
  "earlyChain = \<lparr>heights = [(100, None)], windows = [(150, 160)], nonces = [], commits = []\<rparr>"

section \<open>Traces\<close>

lemmas unf = call_def callr_def wait_def emit_def Let_def

lemma quiet_filter_isWait: "list_all quiet pre \<Longrightarrow> filter isWait (pre @ evs) = filter isWait evs"
  by (induction pre) (auto simp: quiet_def)

lemma quiet_commit_mem:
  "list_all quiet pre \<Longrightarrow> isCommitAttempt e \<Longrightarrow> e \<in> set (pre @ evs) \<Longrightarrow> e \<in> set evs"
  by (induction pre) (auto simp: quiet_def)

lemma quiet_no_commit: "list_all quiet pre \<Longrightarrow> isCommitAttempt e \<Longrightarrow> e \<notin> set pre"
  by (induction pre) (auto simp: quiet_def)



section \<open>The dispatcher starts one goroutine per role and topic\<close>

lemma length_firstPerTopic_le: "length (firstPerTopic cs) \<le> length cs"
proof (induction cs rule: firstPerTopic.induct)
  case 1
  show ?case by simp
next
  case (2 c cs)
  show ?case using order_trans [OF 2 length_filter_le] by simp
qed

lemma set_firstPerTopic: "TopicId ` set (firstPerTopic cs) = TopicId ` set cs"
proof (induction cs rule: firstPerTopic.induct)
  case 1
  show ?case by simp
next
  case (2 c cs)
  then show ?case by auto
qed

lemma firstPerTopic_subset: "set (firstPerTopic cs) \<subseteq> set cs"
proof (induction cs rule: firstPerTopic.induct)
  case 1
  show ?case by simp
next
  case (2 c cs)
  then show ?case by auto
qed

lemma distinct_firstPerTopic: "distinct (map TopicId (firstPerTopic cs))"
proof (induction cs rule: firstPerTopic.induct)
  case 1
  show ?case by simp
next
  case (2 c cs)
  have "TopicId c \<notin> TopicId ` set (filter (\<lambda>d. TopicId d \<noteq> TopicId c) cs)" by auto
  then have "TopicId c \<notin> TopicId ` set (firstPerTopic (filter (\<lambda>d. TopicId d \<noteq> TopicId c) cs))"
    by (simp add: set_firstPerTopic)
  with 2 show ?case by simp
qed

lemma length_firstPerTopic: "length (firstPerTopic cs) = card (TopicId ` set cs)"
proof -
  have "length (firstPerTopic cs) = length (map TopicId (firstPerTopic cs))" by simp
  also have "\<dots> = card (set (map TopicId (firstPerTopic cs)))"
    using distinct_firstPerTopic [of cs] by (simp only: distinct_card)
  also have "\<dots> = card (TopicId ` set cs)" by (simp add: set_firstPerTopic)
  finally show ?thesis .
qed

lemma firstPerTopic_find:
  "c \<in> set (firstPerTopic cs) \<Longrightarrow> find (\<lambda>d. TopicId d = TopicId c) cs = Some c"
proof (induction cs rule: firstPerTopic.induct)
  case 1
  then show ?case by simp
next
  case (2 x xs)
  show ?case
  proof (cases "c = x")
    case True
    then show ?thesis by simp
  next
    case False
    with 2(2) have mem: "c \<in> set (firstPerTopic (filter (\<lambda>d. TopicId d \<noteq> TopicId x) xs))" by simp
    then have "c \<in> set (filter (\<lambda>d. TopicId d \<noteq> TopicId x) xs)"
      using firstPerTopic_subset by blast
    then have ne: "TopicId c \<noteq> TopicId x" by simp
    have "find (\<lambda>d. TopicId d = TopicId c) (filter (\<lambda>d. TopicId d \<noteq> TopicId x) xs) = Some c"
      using 2(1) [OF mem] .
    moreover have "find (\<lambda>d. TopicId d = TopicId c) (filter (\<lambda>d. TopicId d \<noteq> TopicId x) xs)
        = find (\<lambda>d. TopicId d = TopicId c) xs"
      using ne by (induction xs) auto
    ultimately show ?thesis using ne by simp
  qed
qed

lemma startWorkers_eq:
  "startWorkers m ws =
    (map RunWorkerProcess (firstPerTopic (filter (\<lambda>w. m (TopicId w) = None) ws)),
     replicate (length ws - length (firstPerTopic (filter (\<lambda>w. m (TopicId w) = None) ws)))
       (Log DebugLevel ''Worker already started for topicId''))"
proof (induction ws arbitrary: m)
  case Nil
  show ?case by simp
next
  case (Cons w ws)
  show ?case
  proof (cases "m (TopicId w)")
    case None
    have f: "filter (\<lambda>d. (m(TopicId w \<mapsto> True)) (TopicId d) = None) ws
        = filter (\<lambda>d. TopicId d \<noteq> TopicId w) (filter (\<lambda>d. m (TopicId d) = None) ws)"
      by (induction ws) auto
    have le: "length (firstPerTopic (filter (\<lambda>d. TopicId d \<noteq> TopicId w) (filter (\<lambda>d. m (TopicId d) = None) ws)))
        \<le> length ws"
      by (rule order_trans [OF length_firstPerTopic_le]) (simp add: le_trans [OF length_filter_le])
    note ih = Cons.IH [of "m(TopicId w \<mapsto> True)", unfolded f]
    show ?thesis using None le by (simp add: ih del: filter_filter)
  next
    case (Some b)
    have le: "length (firstPerTopic (filter (\<lambda>d. m (TopicId d) = None) ws)) \<le> length ws"
      by (rule order_trans [OF length_firstPerTopic_le]) simp
    show ?thesis using Some le by (simp add: Cons.IH Suc_diff_le replicate_Suc [symmetric] del: replicate_Suc)
  qed
qed

lemma startReputers_eq:
  "startReputers m rs =
    (map RunReputerProcess (firstPerTopic (filter (\<lambda>w. m (TopicId w) = None) rs)),
     replicate (length rs - length (firstPerTopic (filter (\<lambda>w. m (TopicId w) = None) rs)))
       (Log DebugLevel ''Reputer already started for topicId''))"
proof (induction rs arbitrary: m)
  case Nil
  show ?case by simp
next
  case (Cons w ws)
  show ?case
  proof (cases "m (TopicId w)")
    case None
    have f: "filter (\<lambda>d. (m(TopicId w \<mapsto> True)) (TopicId d) = None) ws
        = filter (\<lambda>d. TopicId d \<noteq> TopicId w) (filter (\<lambda>d. m (TopicId d) = None) ws)"
      by (induction ws) auto
    have le: "length (firstPerTopic (filter (\<lambda>d. TopicId d \<noteq> TopicId w) (filter (\<lambda>d. m (TopicId d) = None) ws)))
        \<le> length ws"
      by (rule order_trans [OF length_firstPerTopic_le]) (simp add: le_trans [OF length_filter_le])
    note ih = Cons.IH [of "m(TopicId w \<mapsto> True)", unfolded f]
    show ?thesis using None le by (simp add: ih del: filter_filter)
  next
    case (Some b)
    have le: "length (firstPerTopic (filter (\<lambda>d. m (TopicId d) = None) ws)) \<le> length ws"
      by (rule order_trans [OF length_firstPerTopic_le]) simp
    show ?thesis using Some le by (simp add: Cons.IH Suc_diff_le replicate_Suc [symmetric] del: replicate_Suc)
  qed
qed

lemma launched_map:
  "launchedWorkers (map RunWorkerProcess ws @ map RunReputerProcess rs) = ws"
  "launchedReputers (map RunWorkerProcess ws @ map RunReputerProcess rs) = rs"
  by (induction ws; induction rs; simp)+

text \<open>
  Claim C2. For every list of worker configurations and every list of reputer
  configurations, \<open>Spawn\<close> starts exactly the first configuration of each topic id within
  each role, the workers before the reputers, in the order of the lists, and logs one
  debug line for every configuration it skips. So the goroutines started for a role are
  as many as the distinct topic ids of that role's list, no two of them share a topic id,
  each one is the first configuration of the list with its topic id, and every topic id
  of the list has its goroutine.
\<close>

theorem Spawn_one_goroutine_per_role_and_topic:
  "Spawn workers reputers =
     (map RunWorkerProcess (firstPerTopic workers) @ map RunReputerProcess (firstPerTopic reputers),
      replicate (length workers - card (TopicId ` set workers))
        (Log DebugLevel ''Worker already started for topicId'') @
      replicate (length reputers - card (TopicId ` set reputers))
        (Log DebugLevel ''Reputer already started for topicId'')) \<and>
   length (launchedWorkers (fst (Spawn workers reputers))) = card (TopicId ` set workers) \<and>
   length (launchedReputers (fst (Spawn workers reputers))) = card (TopicId ` set reputers) \<and>
   distinct (map TopicId (launchedWorkers (fst (Spawn workers reputers)))) \<and>
   distinct (map TopicId (launchedReputers (fst (Spawn workers reputers)))) \<and>
   (\<forall>w \<in> set (launchedWorkers (fst (Spawn workers reputers))).
      find (\<lambda>d. TopicId d = TopicId w) workers = Some w) \<and>
   (\<forall>r \<in> set (launchedReputers (fst (Spawn workers reputers))).
      find (\<lambda>d. TopicId d = TopicId r) reputers = Some r) \<and>
   TopicId ` set (launchedWorkers (fst (Spawn workers reputers))) = TopicId ` set workers \<and>
   TopicId ` set (launchedReputers (fst (Spawn workers reputers))) = TopicId ` set reputers"
proof -
  have sp: "Spawn workers reputers =
     (map RunWorkerProcess (firstPerTopic workers) @ map RunReputerProcess (firstPerTopic reputers),
      replicate (length workers - card (TopicId ` set workers))
        (Log DebugLevel ''Worker already started for topicId'') @
      replicate (length reputers - card (TopicId ` set reputers))
        (Log DebugLevel ''Reputer already started for topicId''))"
    by (simp add: Spawn_def startWorkers_eq startReputers_eq length_firstPerTopic)
  show ?thesis
    unfolding sp fst_conv launched_map
    by (simp add: length_firstPerTopic distinct_firstPerTopic firstPerTopic_find set_firstPerTopic)
qed



theorem Spawn_one_goroutine_per_role_and_topic_witness:
  "Spawn [worker7, worker7', worker9, worker7] [reputer7, reputer7'] =
     ([RunWorkerProcess worker7, RunWorkerProcess worker9, RunReputerProcess reputer7],
      [Log DebugLevel ''Worker already started for topicId'',
       Log DebugLevel ''Worker already started for topicId'',
       Log DebugLevel ''Reputer already started for topicId'']) \<and>
   worker7 \<in> set (launchedWorkers (fst (Spawn [worker7, worker7', worker9, worker7]
                                          [reputer7, reputer7']))) \<and>
   find (\<lambda>d. TopicId d = TopicId worker7) [worker7, worker7', worker9, worker7] = Some worker7 \<and>
   reputer7 \<in> set (launchedReputers (fst (Spawn [worker7, worker7', worker9, worker7]
                                            [reputer7, reputer7']))) \<and>
   find (\<lambda>d. TopicId d = TopicId reputer7) [reputer7, reputer7'] = Some reputer7"
  using Spawn_one_goroutine_per_role_and_topic
          [of "[worker7, worker7', worker9, worker7]" "[reputer7, reputer7']"]
  by (simp add: Spawn_def worker7_def worker7'_def worker9_def reputer7_def reputer7'_def)

section \<open>Failures that end a loop\<close>

text \<open>
  Claim C5. For both roles: when the topic has been fetched and the idempotent
  registration call returns false, the process function returns, whatever fuel the loop
  would have had, and all it has done is the start-up log line, the topic fetch, the
  registration call and the error log line. No window computation, no chain-height fetch,
  no nonce fetch and no commit attempt is in the trace.
\<close>

theorem registration_failure_ends_the_loop:
  "(GetTopicById nd (TopicId worker) (world s) = ((topic, None), c1) \<longrightarrow>
    RegisterWorkerIdempotently nd worker c1 = (False, c2) \<longrightarrow>
    runWorkerProcess k nd worker s =
      (Returned, s\<lparr>world := c2, trace := trace s @
         [Log InfoLevel ''Running worker process for topic'',
          CallGetTopicById (TopicId worker),
          CallRegisterWorkerIdempotently worker,
          Log ErrorLevel ''Failed to register worker for topic'']\<rparr>)) \<and>
   (GetTopicById nd (TopicId reputer) (world s) = ((topic, None), c1) \<longrightarrow>
    RegisterAndStakeReputerIdempotently nd reputer c1 = (False, c2) \<longrightarrow>
    runReputerProcess k nd reputer s =
      (Returned, s\<lparr>world := c2, trace := trace s @
         [Log DebugLevel ''Running reputer process for topic'',
          CallGetTopicById (TopicId reputer),
          CallRegisterAndStakeReputerIdempotently reputer,
          Log ErrorLevel ''Failed to register or sufficiently stake reputer for topic'']\<rparr>))"
  by (simp add: runWorkerProcess_def workerStart_def runReputerProcess_def reputerStart_def unf)

theorem registration_failure_ends_the_loop_witness:
  "GetTopicById refusingNode (TopicId worker7) unreachableChain
     = ((topic7, None), unreachableChain) \<and>
   RegisterWorkerIdempotently refusingNode worker7 unreachableChain
     = (False, unreachableChain) \<and>
   RegisterAndStakeReputerIdempotently refusingNode reputer7 unreachableChain
     = (False, unreachableChain) \<and>
   runWorkerProcess 5 refusingNode worker7 (start unreachableChain) =
     (Returned, \<lparr>world = unreachableChain, trace =
         [Log InfoLevel ''Running worker process for topic'',
          CallGetTopicById 7,
          CallRegisterWorkerIdempotently worker7,
          Log ErrorLevel ''Failed to register worker for topic'']\<rparr>) \<and>
   runReputerProcess 5 refusingNode reputer7 (start unreachableChain) =
     (Returned, \<lparr>world = unreachableChain, trace =
         [Log DebugLevel ''Running reputer process for topic'',
          CallGetTopicById 7,
          CallRegisterAndStakeReputerIdempotently reputer7,
          Log ErrorLevel ''Failed to register or sufficiently stake reputer for topic'']\<rparr>)"
  using registration_failure_ends_the_loop
          [where nd = refusingNode and worker = worker7
             and reputer = reputer7 and s = "start unreachableChain" and topic = topic7
             and ?c1.0 = unreachableChain and ?c2.0 = unreachableChain and k = 5]
  by (simp add: refusingNode_def topiclessNode_def scriptedNode_def start_def worker7_def
        reputer7_def)

text \<open>
  Claim C10. For both roles: when \<open>GetTopicById\<close> returns an error, the process function
  returns, whatever fuel the loop would have had, and all it has done is the start-up log
  line, the topic fetch and the error log line. So there is no registration, no window
  computation, no nonce fetch and no commit attempt.
\<close>

theorem topic_fetch_failure_ends_the_loop:
  "(GetTopicById nd (TopicId worker) (world s) = ((topic, Some e), c1) \<longrightarrow>
    runWorkerProcess k nd worker s =
      (Returned, s\<lparr>world := c1, trace := trace s @
         [Log InfoLevel ''Running worker process for topic'',
          CallGetTopicById (TopicId worker),
          Log ErrorLevel ''Failed to get topic'']\<rparr>)) \<and>
   (GetTopicById nd (TopicId reputer) (world s) = ((topic, Some e), c1) \<longrightarrow>
    runReputerProcess k nd reputer s =
      (Returned, s\<lparr>world := c1, trace := trace s @
         [Log DebugLevel ''Running reputer process for topic'',
          CallGetTopicById (TopicId reputer),
          Log ErrorLevel ''Failed to get topic'']\<rparr>))"
  by (simp add: runWorkerProcess_def workerStart_def runReputerProcess_def reputerStart_def unf)

theorem topic_fetch_failure_ends_the_loop_witness:
  "GetTopicById topiclessNode (TopicId worker7)
     unreachableChain = ((topic7, Some ''no such topic''), unreachableChain) \<and>
   runWorkerProcess 5 topiclessNode worker7
       (start unreachableChain) =
     (Returned, \<lparr>world = unreachableChain, trace =
         [Log InfoLevel ''Running worker process for topic'',
          CallGetTopicById 7,
          Log ErrorLevel ''Failed to get topic'']\<rparr>) \<and>
   runReputerProcess 5 topiclessNode reputer7
       (start unreachableChain) =
     (Returned, \<lparr>world = unreachableChain, trace =
         [Log DebugLevel ''Running reputer process for topic'',
          CallGetTopicById 7,
          Log ErrorLevel ''Failed to get topic'']\<rparr>)"
  using topic_fetch_failure_ends_the_loop
          [where nd = topiclessNode and worker = worker7
             and reputer = reputer7 and s = "start unreachableChain" and topic = topic7
             and e = "''no such topic''" and ?c1.0 = unreachableChain and k = 5]
  by (simp add: refusingNode_def topiclessNode_def scriptedNode_def start_def worker7_def
        reputer7_def)

lemma worker_height_error:
  "GetCurrentChainBlockHeight nd (world s) = ((h, Some e), c) \<Longrightarrow>
   workerIteration nd worker topic st s =
     (Return, s\<lparr>world := c, trace := trace s @
        [CallGetCurrentChainBlockHeight h (Some e),
         Log ErrorLevel ''Error getting chain block height for worker job on topic'']\<rparr>)"
  by (simp add: workerIteration_def unf)

lemma reputer_height_error:
  "GetCurrentChainBlockHeight nd (world s) = ((h, Some e), c) \<Longrightarrow>
   reputerIteration nd reputer topic st s =
     (Return, s\<lparr>world := c, trace := trace s @
        [CallGetCurrentChainBlockHeight h (Some e),
         Log ErrorLevel ''Error getting chain block height for reputer job on topic'']\<rparr>)"
  by (simp add: reputerIteration_def unf)

text \<open>
  Claim C6. In any iteration of either loop, from any values of the loop's variables:
  when \<open>GetCurrentChainBlockHeight\<close> returns an error, the loop returns, and all the
  iteration has done is the height query and the error log line. Among goroutines running
  side by side, the goroutine whose height query failed becomes \<open>Done\<close>; the process does
  not crash and every other goroutine keeps its state, the world being changed by the
  height query alone.
\<close>

theorem height_fetch_failure_ends_that_loop_only:
  assumes "GetCurrentChainBlockHeight nd (world s) = ((h, Some e), c)"
  shows "workerLoop (Suc k) nd worker topic st s =
      (Returned, s\<lparr>world := c, trace := trace s @
        [CallGetCurrentChainBlockHeight h (Some e),
         Log ErrorLevel ''Error getting chain block height for worker job on topic'']\<rparr>) \<and>
    reputerLoop (Suc k) nd reputer topic rst s =
      (Returned, s\<lparr>world := c, trace := trace s @
        [CallGetCurrentChainBlockHeight h (Some e),
         Log ErrorLevel ''Error getting chain block height for reputer job on topic'']\<rparr>) \<and>
    (\<not> crashed p \<and> i < length (goroutines p) \<and>
       (goroutines p ! i = WorkerLooping worker topic st \<or>
        goroutines p ! i = ReputerLooping reputer topic rst) \<longrightarrow>
       (\<exists>s'. schedule nd i (p, s) = (p\<lparr>goroutines := (goroutines p)[i := Done]\<rparr>, s') \<and>
             world s' = c \<and>
             \<not> crashed (fst (schedule nd i (p, s))) \<and>
             (\<forall>j. j \<noteq> i \<longrightarrow>
                goroutines (fst (schedule nd i (p, s))) ! j = goroutines p ! j)))"
  using assms
  by (auto simp: worker_height_error reputer_height_error schedule_def)


theorem height_fetch_failure_ends_that_loop_only_witness:
  "GetCurrentChainBlockHeight registeringNode (world (start unreachableChain)) =
     ((0, Some ''chain unreachable''), unreachableChain) \<and>
   workerLoop (Suc 0) registeringNode worker7 topic7 settledWorker (start unreachableChain) =
     (Returned, \<lparr>world = unreachableChain, trace =
        [CallGetCurrentChainBlockHeight 0 (Some ''chain unreachable''),
         Log ErrorLevel ''Error getting chain block height for worker job on topic'']\<rparr>) \<and>
   reputerLoop (Suc 0) registeringNode reputer7 topic7 settledReputer (start unreachableChain) =
     (Returned, \<lparr>world = unreachableChain, trace =
        [CallGetCurrentChainBlockHeight 0 (Some ''chain unreachable''),
         Log ErrorLevel ''Error getting chain block height for reputer job on topic'']\<rparr>) \<and>
   fst (schedule registeringNode 1
     (\<lparr>goroutines = [WorkerStarting worker9, WorkerLooping worker7 topic7 settledWorker,
                     ReputerLooping reputer7 topic7 settledReputer],
       crashed = False\<rparr>, start unreachableChain)) =
     \<lparr>goroutines = [WorkerStarting worker9, Done,
                    ReputerLooping reputer7 topic7 settledReputer],
       crashed = False\<rparr>"
proof -
  let ?p = "\<lparr>goroutines = [WorkerStarting worker9, WorkerLooping worker7 topic7 settledWorker,
                           ReputerLooping reputer7 topic7 settledReputer],
             crashed = False\<rparr>"
  have h: "GetCurrentChainBlockHeight registeringNode (world (start unreachableChain)) =
     ((0, Some ''chain unreachable''), unreachableChain)"
    by (simp add: registeringNode_def scriptedNode_def start_def unreachableChain_def)
  note t = height_fetch_failure_ends_that_loop_only
             [OF h, where k = 0 and worker = worker7 and reputer = reputer7 and topic = topic7
                and st = settledWorker and rst = settledReputer and i = 1 and p = ?p]
  have eqw: "(start unreachableChain :: (chain, block_height \<times> block_height, string, string) sys)
      \<lparr>world := unreachableChain, trace := trace (start unreachableChain) @
        [CallGetCurrentChainBlockHeight 0 (Some ''chain unreachable''),
         Log ErrorLevel ''Error getting chain block height for worker job on topic'']\<rparr> =
      \<lparr>world = unreachableChain, trace =
        [CallGetCurrentChainBlockHeight 0 (Some ''chain unreachable''),
         Log ErrorLevel ''Error getting chain block height for worker job on topic'']\<rparr>"
    by (simp add: start_def)
  have eqr: "(start unreachableChain :: (chain, block_height \<times> block_height, string, string) sys)
      \<lparr>world := unreachableChain, trace := trace (start unreachableChain) @
        [CallGetCurrentChainBlockHeight 0 (Some ''chain unreachable''),
         Log ErrorLevel ''Error getting chain block height for reputer job on topic'']\<rparr> =
      \<lparr>world = unreachableChain, trace =
        [CallGetCurrentChainBlockHeight 0 (Some ''chain unreachable''),
         Log ErrorLevel ''Error getting chain block height for reputer job on topic'']\<rparr>"
    by (simp add: start_def)
  note t' = t [unfolded eqw eqr]
  have loops:
    "workerLoop (Suc 0) registeringNode worker7 topic7 settledWorker (start unreachableChain) =
       (Returned, \<lparr>world = unreachableChain, trace =
          [CallGetCurrentChainBlockHeight 0 (Some ''chain unreachable''),
           Log ErrorLevel ''Error getting chain block height for worker job on topic'']\<rparr>)"
    "reputerLoop (Suc 0) registeringNode reputer7 topic7 settledReputer (start unreachableChain) =
       (Returned, \<lparr>world = unreachableChain, trace =
          [CallGetCurrentChainBlockHeight 0 (Some ''chain unreachable''),
           Log ErrorLevel ''Error getting chain block height for reputer job on topic'']\<rparr>)"
    using t' by blast+
  have pre: "\<not> crashed ?p \<and> 1 < length (goroutines ?p) \<and>
       (goroutines ?p ! 1 = WorkerLooping worker7 topic7 settledWorker \<or>
        goroutines ?p ! 1 = ReputerLooping reputer7 topic7 settledReputer)"
    by simp
  from t' pre have "\<exists>s'. schedule registeringNode 1 (?p, start unreachableChain) =
          (?p\<lparr>goroutines := (goroutines ?p)[1 := Done]\<rparr>, s')"
    by blast
  then have "fst (schedule registeringNode 1 (?p, start unreachableChain)) =
      \<lparr>goroutines = [WorkerStarting worker9, Done,
                    ReputerLooping reputer7 topic7 settledReputer],
       crashed = False\<rparr>"
    by auto
  with h loops show ?thesis by (simp del: workerLoop.simps reputerLoop.simps)
qed

section \<open>What a commit attempt does to the worker loop\<close>

lemma workerRecalcWindow_events:
  assumes "workerRecalcWindow nd topic cur st s = (st', s')"
  shows "trace s' = trace s @
           (if mustRecalcWindow st
            then [CallCalcWorkerSoonestAnticipatedWindow topic cur,
                  Log DebugLevel
                    ''Worker anticipated window for topic %d open nonce. Open: %f Close $f %v'']
            else []) \<and>
         \<not> mustRecalcWindow st' \<and> (\<not> mustRecalcWindow st \<longrightarrow> st' = st)"
  using assms unfolding workerRecalcWindow_def unf
  by (auto split: prod.splits if_splits)





text \<open>
  The three ways through an iteration of the worker loop: the height query fails; the
  block is within the window and the commit block runs; the block is outside and the loop
  waits for the window.
\<close>

lemma workerIteration_cases:
  assumes it: "workerIteration nd worker topic st s = (r, s')"
  obtains
    (Fails) h e where
      "fst (GetCurrentChainBlockHeight nd (world s)) = (h, Some e)" "r = Return"
      "trace s' = trace s @ [CallGetCurrentChainBlockHeight h (Some e),
          Log ErrorLevel ''Error getting chain block height for worker job on topic'']"
      "world s' = snd (GetCurrentChainBlockHeight nd (world s))"
  | (Inside) cur st1 s1 s2 where
      "fst (GetCurrentChainBlockHeight nd (world s)) = (cur, None)"
      "trace s1 = trace s @ [CallGetCurrentChainBlockHeight cur None]"
      "world s1 = snd (GetCurrentChainBlockHeight nd (world s))"
      "workerRecalcWindow nd topic cur st s1 = (st1, s2)"
      "BlockIsWithinWindow nd (window st1) cur"
      "workerCommit nd worker topic cur st1 s2 = (r, s')"
  | (Outside) cur st1 s1 s2 where
      "fst (GetCurrentChainBlockHeight nd (world s)) = (cur, None)"
      "trace s1 = trace s @ [CallGetCurrentChainBlockHeight cur None]"
      "world s1 = snd (GetCurrentChainBlockHeight nd (world s))"
      "workerRecalcWindow nd topic cur st s1 = (st1, s2)"
      "\<not> BlockIsWithinWindow nd (window st1) cur"
      "r = Continue st1"
      "trace s' = trace s2 @
         [Log DebugLevel ''Block %d is not within window. Open: %f Close: %f'',
          CallWaitForNextAnticipatedWindowToStart (window st1) cur (EpochLength topic)]"
      "world s' = WaitForNextAnticipatedWindowToStart nd (window st1) cur (EpochLength topic)
                    (world s2)"
proof -
  obtain cur err c1 where g: "GetCurrentChainBlockHeight nd (world s) = ((cur, err), c1)"
    by (metis surj_pair)
  define s1 where "s1 = emit (CallGetCurrentChainBlockHeight cur err) (s\<lparr>world := c1\<rparr>)"
  have h: "callr (\<lambda>r. CallGetCurrentChainBlockHeight (fst r) (snd r))
             (GetCurrentChainBlockHeight nd) s = ((cur, err), s1)"
    by (simp add: callr_def g s1_def)
  have t1: "trace s1 = trace s @ [CallGetCurrentChainBlockHeight cur err]"
    "world s1 = snd (GetCurrentChainBlockHeight nd (world s))"
    by (simp_all add: s1_def emit_def g)
  show ?thesis
  proof (cases err)
    case (Some e)
    with it h have "r = Return" "s' = emit (Log ErrorLevel
        ''Error getting chain block height for worker job on topic'') s1"
      by (simp_all add: workerIteration_def)
    with t1 g Some show ?thesis by (intro Fails [of cur e]) (simp_all add: emit_def)
  next
    case None
    obtain st1 s2 where a: "workerRecalcWindow nd topic cur st s1 = (st1, s2)"
      by (metis surj_pair)
    show ?thesis
    proof (cases "BlockIsWithinWindow nd (window st1) cur")
      case True
      with it h None a have "workerCommit nd worker topic cur st1 s2 = (r, s')"
        by (simp add: workerIteration_def)
      with t1 g None a True show ?thesis by (intro Inside [of cur s1 st1 s2]) simp_all
    next
      case False
      with it h None a have "r = Continue st1"
        "s' = wait (CallWaitForNextAnticipatedWindowToStart (window st1) cur (EpochLength topic))
               (WaitForNextAnticipatedWindowToStart nd (window st1) cur (EpochLength topic))
               (emit (Log DebugLevel ''Block %d is not within window. Open: %f Close: %f'') s2)"
        by (simp_all add: workerIteration_def)
      then have "r = Continue st1"
        "trace s' = trace s2 @ [Log DebugLevel ''Block %d is not within window. Open: %f Close: %f'',
          CallWaitForNextAnticipatedWindowToStart (window st1) cur (EpochLength topic)]"
        "world s' = WaitForNextAnticipatedWindowToStart nd (window st1) cur (EpochLength topic)
                    (world s2)"
        by (simp_all add: unf)
      with t1 g None a False show ?thesis by (intro Outside [of cur s1 st1 s2]) simp_all
    qed
  qed
qed






section \<open>What a commit attempt does to the reputer loop\<close>

lemma reputerRecalcOpenNonceWindow_events:
  assumes "reputerRecalcOpenNonceWindow nd topic cur st s = (st', s')"
  shows "\<exists>evs. trace s' = trace s @ evs \<and> list_all quiet evs \<and>
          \<not> mustRecalcOpenNonceWindow st' \<and>
          latestOpenReputerNonce st' = latestOpenReputerNonce st \<and>
          mustGetOpenNonce st' = mustGetOpenNonce st \<and>
          mustRecalcReputerWindow st' = mustRecalcReputerWindow st \<and>
          (\<not> mustRecalcOpenNonceWindow st \<longrightarrow> st' = st)"
  using assms unfolding reputerRecalcOpenNonceWindow_def unf
  by (auto simp: quiet_def split: prod.splits if_splits)

lemma reputerGetOpenNonce_exit:
  assumes "reputerGetOpenNonce nd reputer cur st s = Inl (r, s')"
  shows "\<exists>evs. trace s' = trace s @ evs \<and> list_all quiet evs"
  using assms unfolding reputerGetOpenNonce_def unf
  by (auto simp: quiet_def split: prod.splits option.splits if_splits)

lemma reputerGetOpenNonce_events:
  assumes "reputerGetOpenNonce nd reputer cur st s = Inr (st', s')"
  shows "\<exists>evs. trace s' = trace s @ evs \<and> list_all quiet evs \<and>
          mustRecalcOpenNonceWindow st' = mustRecalcOpenNonceWindow st \<and>
          mustRecalcReputerWindow st' = mustRecalcReputerWindow st \<and>
          (mustGetOpenNonce st' \<longrightarrow> mustGetOpenNonce st) \<and>
          (\<not> mustGetOpenNonce st \<longrightarrow> st' = st)"
  using assms unfolding reputerGetOpenNonce_def unf
  by (auto simp: quiet_def split: prod.splits option.splits if_splits)

lemma reputerRecalcWindow_exit:
  assumes "reputerRecalcWindow nd topic st s = Inl (r, s')"
  shows "\<exists>evs. trace s' = trace s @ evs \<and> list_all quiet evs"
  using assms unfolding reputerRecalcWindow_def unf
  by (auto simp: quiet_def split: prod.splits option.splits if_splits)

lemma reputerRecalcWindow_events:
  assumes "reputerRecalcWindow nd topic st s = Inr (st', s')"
  shows "\<exists>evs. trace s' = trace s @ evs \<and> list_all quiet evs \<and>
          \<not> mustRecalcReputerWindow st' \<and>
          mustRecalcOpenNonceWindow st' = mustRecalcOpenNonceWindow st \<and>
          mustGetOpenNonce st' = mustGetOpenNonce st \<and>
          (\<not> mustRecalcReputerWindow st \<longrightarrow> st' = st)"
  using assms unfolding reputerRecalcWindow_def unf
  by (auto simp: quiet_def split: prod.splits option.splits if_splits)

lemma reputerRecalcOpenNonceWindow_world:
  assumes "reputerRecalcOpenNonceWindow nd topic cur st s = (st', s')"
  shows "(window st', world s') =
           (if mustRecalcOpenNonceWindow st
            then CalcWorkerSoonestAnticipatedWindow nd (window st) topic cur (world s)
            else (window st, world s))"
  using assms unfolding reputerRecalcOpenNonceWindow_def unf
  by (auto split: prod.splits if_splits)

lemma reputerGetOpenNonce_world:
  assumes "reputerGetOpenNonce nd reputer cur st s = Inr (st', s')"
  shows "world s' =
           (if mustGetOpenNonce st \<and> BlockIsWithinWindow nd (window st) cur
            then snd (GetLatestOpenWorkerNonceByTopicId nd (TopicId reputer) (world s))
            else world s)"
  using assms unfolding reputerGetOpenNonce_def unf
  by (auto split: prod.splits option.splits if_splits)

lemma reputerRecalcWindow_world:
  assumes "reputerRecalcWindow nd topic st s = Inr (st', s')"
  shows "world s' = world s"
  using assms unfolding reputerRecalcWindow_def unf
  by (auto split: prod.splits option.splits if_splits)

lemma reputerCommit_world:
  assumes "reputerCommit nd reputer topic currentBlock st s = (r, s')"
    and "trace s' = trace s @ evs"
  shows
   "(CallBuildCommitReputerPayload reputer h True \<in> set evs \<longrightarrow>
       world s' =
         WaitForNextAnticipatedWindowToStart nd (window st) currentBlock (EpochLength topic)
           (snd (BuildCommitReputerPayload nd reputer h (world s)))) \<and>
    (CallBuildCommitReputerPayload reputer h False \<in> set evs \<longrightarrow>
       world s' =
         WaitWithinAnticipatedWindow nd (snd (BuildCommitReputerPayload nd reputer h (world s))))"
  using assms unfolding reputerCommit_def unf
  by (auto split: prod.splits option.splits if_splits)

lemma reputerCommit_outcome:
  assumes "reputerCommit nd reputer topic currentBlock st s = (r, s')"
    and "trace s' = trace s @ evs"
  shows
   "(CallBuildCommitReputerPayload reputer h True \<in> set evs \<longrightarrow>
       r = Continue (st\<lparr>mustRecalcOpenNonceWindow := True, mustGetOpenNonce := True,
                        mustRecalcReputerWindow := True\<rparr>) \<and>
       filter isWait evs =
         [CallWaitForNextAnticipatedWindowToStart (window st) currentBlock (EpochLength topic)] \<and>
       last evs = CallWaitForNextAnticipatedWindowToStart (window st) currentBlock (EpochLength topic)) \<and>
    (CallBuildCommitReputerPayload reputer h False \<in> set evs \<longrightarrow>
       r = Continue st \<and>
       filter isWait evs = [CallWaitWithinAnticipatedWindow] \<and>
       last evs = CallWaitWithinAnticipatedWindow)"
  using assms unfolding reputerCommit_def unf
  by (auto split: prod.splits option.splits if_splits)

lemma reputerCommit_extends:
  assumes "reputerCommit nd reputer topic currentBlock st s = (r, s')"
  shows "\<exists>evs. trace s' = trace s @ evs"
  using assms unfolding reputerCommit_def unf
  by (auto split: prod.splits option.splits if_splits)

lemma reputerIteration_cases:
  assumes it: "reputerIteration nd reputer topic st s = (r, s')"
  shows "(\<exists>pre. trace s' = trace s @ pre \<and> list_all quiet pre) \<or>
         (\<exists>pre st3 s4.
            reputerCommit nd reputer topic (fst (fst (GetCurrentChainBlockHeight nd (world s)))) st3 s4
              = (r, s') \<and>
            trace s4 = trace s @ pre \<and> list_all quiet pre \<and>
            world s4 = reputerCommitEntry nd reputer topic st (world s) \<and>
            \<not> mustRecalcOpenNonceWindow st3 \<and> \<not> mustRecalcReputerWindow st3 \<and>
            (mustGetOpenNonce st3 \<longrightarrow> mustGetOpenNonce st) \<and>
            (\<not> mustRecalcOpenNonceWindow st \<and> \<not> mustGetOpenNonce st \<and>
             \<not> mustRecalcReputerWindow st \<longrightarrow> st3 = st))"
proof -
  obtain cur err c1 where g: "GetCurrentChainBlockHeight nd (world s) = ((cur, err), c1)"
    by (metis surj_pair)
  define s1 where "s1 = emit (CallGetCurrentChainBlockHeight cur err) (s\<lparr>world := c1\<rparr>)"
  have h: "callr (\<lambda>r. CallGetCurrentChainBlockHeight (fst r) (snd r))
             (GetCurrentChainBlockHeight nd) s = ((cur, err), s1)"
    by (simp add: callr_def g s1_def)
  have t1: "trace s1 = trace s @ [CallGetCurrentChainBlockHeight cur err]"
    by (simp add: s1_def emit_def)
  have v1: "world s1 = c1"
    by (simp add: s1_def emit_def)
  have q1: "list_all quiet [CallGetCurrentChainBlockHeight cur err]" by (simp add: quiet_def)
  show ?thesis
  proof (cases "err = None")
    case False
    with it h have "s' = emit (Log ErrorLevel
        ''Error getting chain block height for reputer job on topic'') s1"
      by (auto simp: reputerIteration_def)
    then have "trace s' = trace s @ [CallGetCurrentChainBlockHeight cur err, Log ErrorLevel
        ''Error getting chain block height for reputer job on topic'']"
      by (simp add: emit_def t1)
    moreover have "list_all quiet [CallGetCurrentChainBlockHeight cur err, Log ErrorLevel
        ''Error getting chain block height for reputer job on topic'']"
      by (simp add: quiet_def)
    ultimately show ?thesis by blast
  next
    case True
    obtain st1 s2 where a: "reputerRecalcOpenNonceWindow nd topic cur st s1 = (st1, s2)"
      by (metis surj_pair)
    from reputerRecalcOpenNonceWindow_events [OF a] obtain e1 where
      e1: "trace s2 = trace s1 @ e1" "list_all quiet e1" "\<not> mustRecalcOpenNonceWindow st1"
        "mustGetOpenNonce st1 = mustGetOpenNonce st"
        "mustRecalcReputerWindow st1 = mustRecalcReputerWindow st"
        "\<not> mustRecalcOpenNonceWindow st \<longrightarrow> st1 = st"
      by blast
    show ?thesis
    proof (cases "reputerGetOpenNonce nd reputer cur st1 s2")
      case (Inl x)
      with it h True a have x: "x = (r, s')" by (simp add: reputerIteration_def)
      from reputerGetOpenNonce_exit [OF Inl [unfolded x]] obtain e2 where
        e2: "trace s' = trace s2 @ e2" "list_all quiet e2" by blast
      have "trace s' = trace s @ ([CallGetCurrentChainBlockHeight cur err] @ e1 @ e2)"
        by (simp add: e2 e1 t1)
      moreover have "list_all quiet ([CallGetCurrentChainBlockHeight cur err] @ e1 @ e2)"
        using q1 e1 e2 by simp
      ultimately show ?thesis by blast
    next
      case (Inr y)
      obtain st2 s3 where y: "y = (st2, s3)" by (metis surj_pair)
      from reputerGetOpenNonce_events [OF Inr [unfolded y]] obtain e2 where
        e2: "trace s3 = trace s2 @ e2" "list_all quiet e2"
          "mustRecalcOpenNonceWindow st2 = mustRecalcOpenNonceWindow st1"
          "mustRecalcReputerWindow st2 = mustRecalcReputerWindow st1"
          "mustGetOpenNonce st2 \<longrightarrow> mustGetOpenNonce st1"
          "\<not> mustGetOpenNonce st1 \<longrightarrow> st2 = st1"
        by blast
      show ?thesis
      proof (cases "reputerRecalcWindow nd topic st2 s3")
        case (Inl x)
        with it h True a Inr y have x: "x = (r, s')" by (simp add: reputerIteration_def)
        from reputerRecalcWindow_exit [OF Inl [unfolded x]] obtain e3 where
          e3: "trace s' = trace s3 @ e3" "list_all quiet e3" by blast
        have "trace s' = trace s @ ([CallGetCurrentChainBlockHeight cur err] @ e1 @ e2 @ e3)"
          by (simp add: e3 e2 e1 t1)
        moreover have "list_all quiet ([CallGetCurrentChainBlockHeight cur err] @ e1 @ e2 @ e3)"
          using q1 e1 e2 e3 by simp
        ultimately show ?thesis by blast
      next
        case (Inr z)
        obtain st3 s4 where z: "z = (st3, s4)" by (metis surj_pair)
        from reputerRecalcWindow_events [OF Inr [unfolded z]] obtain e3 where
          e3: "trace s4 = trace s3 @ e3" "list_all quiet e3"
            "\<not> mustRecalcReputerWindow st3"
            "mustRecalcOpenNonceWindow st3 = mustRecalcOpenNonceWindow st2"
            "mustGetOpenNonce st3 = mustGetOpenNonce st2"
            "\<not> mustRecalcReputerWindow st2 \<longrightarrow> st3 = st2"
          by blast
        have c: "reputerCommit nd reputer topic cur st3 s4 = (r, s')"
          using it h True a \<open>reputerGetOpenNonce nd reputer cur st1 s2 = Inr y\<close> y Inr z
          by (simp add: reputerIteration_def)
        have t4: "trace s4 = trace s @ ([CallGetCurrentChainBlockHeight cur err] @ e1 @ e2 @ e3)"
          by (simp add: e3 e2 e1 t1)
        have q4: "list_all quiet ([CallGetCurrentChainBlockHeight cur err] @ e1 @ e2 @ e3)"
          using q1 e1 e2 e3 by simp
        have f1: "\<not> mustRecalcOpenNonceWindow st3" using e1 e2 e3 by simp
        have f2: "mustGetOpenNonce st3 \<longrightarrow> mustGetOpenNonce st" using e1 e2 e3 by simp
        have f3: "\<not> mustRecalcOpenNonceWindow st \<and> \<not> mustGetOpenNonce st \<and>
             \<not> mustRecalcReputerWindow st \<longrightarrow> st3 = st"
          using e1 e2 e3 by auto
        have v2: "(window st1, world s2) =
            (if mustRecalcOpenNonceWindow st
             then CalcWorkerSoonestAnticipatedWindow nd (window st) topic cur c1
             else (window st, c1))"
          using reputerRecalcOpenNonceWindow_world [OF a] v1 by simp
        have v3: "world s3 =
            (if mustGetOpenNonce st \<and> BlockIsWithinWindow nd (window st1) cur
             then snd (GetLatestOpenWorkerNonceByTopicId nd (TopicId reputer) (world s2))
             else world s2)"
          using reputerGetOpenNonce_world
            [OF \<open>reputerGetOpenNonce nd reputer cur st1 s2 = Inr y\<close> [unfolded y]] e1(4)
          by simp
        have v4: "world s4 = world s3"
          using reputerRecalcWindow_world [OF Inr [unfolded z]] .
        have entry: "world s4 = reputerCommitEntry nd reputer topic st (world s)"
        proof (cases "mustRecalcOpenNonceWindow st")
          case True
          with v2 have "CalcWorkerSoonestAnticipatedWindow nd (window st) topic cur c1 =
              (window st1, world s2)"
            by simp
          with True show ?thesis by (simp add: reputerCommitEntry_def g v4 v3)
        next
          case False
          with v2 have "window st1 = window st" "world s2 = c1" by simp_all
          with False show ?thesis by (simp add: reputerCommitEntry_def g v4 v3)
        qed
        have "cur = fst (fst (GetCurrentChainBlockHeight nd (world s)))" by (simp add: g)
        with c t4 q4 f1 f2 f3 e3(3) entry show ?thesis by blast
      qed
    qed
  qed
qed

text \<open>
  Claim C8. In the reputer loop, with \<open>evs\<close> the events of the commit block (lines 162
  to 179) or of a whole iteration: when the commit attempt succeeds, the block leaves the
  loop's variables as they were but for the three flags, which are all true, and the only
  wait, and the last event, is the wait for the next anticipated window to start, the one
  the worker loop uses, called with the current block and the topic's epoch length; the
  world the block ends in, in which the next iteration starts, is the one that wait
  returns, from the world the commit left. When the commit attempt does not succeed, the
  block leaves all the loop's variables as they were, the only wait, and the last event,
  is the short wait within the window, and the world the block ends in is the one the
  short wait returns; at the end of such an iteration the two window flags are false,
  \<open>mustGetOpenNonce\<close> is not set unless it was at the start, and an iteration that
  started with all three flags false ends with the variables it started with.
\<close>

theorem reputer_commit_resets_or_keeps_the_flags:
  "(reputerCommit nd reputer topic currentBlock st s = (r, s') \<longrightarrow> trace s' = trace s @ evs \<longrightarrow>
      (CallBuildCommitReputerPayload reputer h True \<in> set evs \<longrightarrow>
         r = Continue (st\<lparr>mustRecalcOpenNonceWindow := True, mustGetOpenNonce := True,
                          mustRecalcReputerWindow := True\<rparr>) \<and>
         filter isWait evs =
           [CallWaitForNextAnticipatedWindowToStart (window st) currentBlock (EpochLength topic)] \<and>
         last evs = CallWaitForNextAnticipatedWindowToStart (window st) currentBlock (EpochLength topic) \<and>
         world s' =
           WaitForNextAnticipatedWindowToStart nd (window st) currentBlock (EpochLength topic)
             (snd (BuildCommitReputerPayload nd reputer h (world s)))) \<and>
      (CallBuildCommitReputerPayload reputer h False \<in> set evs \<longrightarrow>
         r = Continue st \<and>
         filter isWait evs = [CallWaitWithinAnticipatedWindow] \<and>
         last evs = CallWaitWithinAnticipatedWindow \<and>
         world s' =
           WaitWithinAnticipatedWindow nd
             (snd (BuildCommitReputerPayload nd reputer h (world s))))) \<and>
   (reputerIteration nd reputer topic st s = (r, s') \<longrightarrow> trace s' = trace s @ evs \<longrightarrow>
      (CallBuildCommitReputerPayload reputer h True \<in> set evs \<longrightarrow>
         (\<exists>st'. r = Continue st' \<and>
            mustRecalcOpenNonceWindow st' \<and> mustGetOpenNonce st' \<and> mustRecalcReputerWindow st' \<and>
            filter isWait evs =
              [CallWaitForNextAnticipatedWindowToStart (window st')
                 (fst (fst (GetCurrentChainBlockHeight nd (world s)))) (EpochLength topic)] \<and>
            last evs = CallWaitForNextAnticipatedWindowToStart (window st')
                 (fst (fst (GetCurrentChainBlockHeight nd (world s)))) (EpochLength topic) \<and>
            world s' =
              WaitForNextAnticipatedWindowToStart nd (window st')
                (fst (fst (GetCurrentChainBlockHeight nd (world s)))) (EpochLength topic)
                (snd (BuildCommitReputerPayload nd reputer h
                   (reputerCommitEntry nd reputer topic st (world s)))))) \<and>
      (CallBuildCommitReputerPayload reputer h False \<in> set evs \<longrightarrow>
         (\<exists>st'. r = Continue st' \<and>
            \<not> mustRecalcOpenNonceWindow st' \<and> \<not> mustRecalcReputerWindow st' \<and>
            (mustGetOpenNonce st' \<longrightarrow> mustGetOpenNonce st) \<and>
            (\<not> mustRecalcOpenNonceWindow st \<and> \<not> mustGetOpenNonce st \<and>
             \<not> mustRecalcReputerWindow st \<longrightarrow> st' = st) \<and>
            filter isWait evs = [CallWaitWithinAnticipatedWindow] \<and>
            last evs = CallWaitWithinAnticipatedWindow \<and>
            world s' =
              WaitWithinAnticipatedWindow nd
                (snd (BuildCommitReputerPayload nd reputer h
                   (reputerCommitEntry nd reputer topic st (world s)))))))"
proof (intro conjI impI)
  assume a: "reputerCommit nd reputer topic currentBlock st s = (r, s')" "trace s' = trace s @ evs"
  { assume m: "CallBuildCommitReputerPayload reputer h True \<in> set evs"
    with reputerCommit_outcome [OF a, of h]
    show "r = Continue (st\<lparr>mustRecalcOpenNonceWindow := True, mustGetOpenNonce := True,
                          mustRecalcReputerWindow := True\<rparr>)"
      and "filter isWait evs =
           [CallWaitForNextAnticipatedWindowToStart (window st) currentBlock (EpochLength topic)]"
      and "last evs = CallWaitForNextAnticipatedWindowToStart (window st) currentBlock (EpochLength topic)"
      by blast+
    from reputerCommit_world [OF a, of h] m
    show "world s' =
           WaitForNextAnticipatedWindowToStart nd (window st) currentBlock (EpochLength topic)
             (snd (BuildCommitReputerPayload nd reputer h (world s)))"
      by blast }
  { assume m: "CallBuildCommitReputerPayload reputer h False \<in> set evs"
    with reputerCommit_outcome [OF a, of h]
    show "r = Continue st" and "filter isWait evs = [CallWaitWithinAnticipatedWindow]"
      and "last evs = CallWaitWithinAnticipatedWindow"
      by blast+
    from reputerCommit_world [OF a, of h] m
    show "world s' =
           WaitWithinAnticipatedWindow nd
             (snd (BuildCommitReputerPayload nd reputer h (world s)))"
      by blast }
next
  assume it: "reputerIteration nd reputer topic st s = (r, s')"
    and tr: "trace s' = trace s @ evs"
  let ?cur = "fst (fst (GetCurrentChainBlockHeight nd (world s)))"
  let ?entry = "reputerCommitEntry nd reputer topic st (world s)"
  have key: "CallBuildCommitReputerPayload reputer h b \<in> set evs \<Longrightarrow>
    \<exists>pre st3 s4 e4. reputerCommit nd reputer topic ?cur st3 s4 = (r, s') \<and>
      trace s' = trace s4 @ e4 \<and> evs = pre @ e4 \<and> list_all quiet pre \<and>
      CallBuildCommitReputerPayload reputer h b \<in> set e4 \<and>
      world s4 = ?entry \<and>
      \<not> mustRecalcOpenNonceWindow st3 \<and> \<not> mustRecalcReputerWindow st3 \<and>
      (mustGetOpenNonce st3 \<longrightarrow> mustGetOpenNonce st) \<and>
      (\<not> mustRecalcOpenNonceWindow st \<and> \<not> mustGetOpenNonce st \<and>
       \<not> mustRecalcReputerWindow st \<longrightarrow> st3 = st)" for b
  proof -
    assume mem: "CallBuildCommitReputerPayload reputer h b \<in> set evs"
    from reputerIteration_cases [OF it] show ?thesis
    proof
      assume "\<exists>pre. trace s' = trace s @ pre \<and> list_all quiet pre"
      then obtain pre where "trace s' = trace s @ pre" "list_all quiet pre" by blast
      with tr have "list_all quiet evs" by simp
      from quiet_no_commit [OF this, of "CallBuildCommitReputerPayload reputer h b"] mem
      show ?thesis by simp
    next
      assume "\<exists>pre st3 s4.
            reputerCommit nd reputer topic ?cur st3 s4 = (r, s') \<and>
            trace s4 = trace s @ pre \<and> list_all quiet pre \<and>
            world s4 = ?entry \<and>
            \<not> mustRecalcOpenNonceWindow st3 \<and> \<not> mustRecalcReputerWindow st3 \<and>
            (mustGetOpenNonce st3 \<longrightarrow> mustGetOpenNonce st) \<and>
            (\<not> mustRecalcOpenNonceWindow st \<and> \<not> mustGetOpenNonce st \<and>
             \<not> mustRecalcReputerWindow st \<longrightarrow> st3 = st)"
      then obtain pre st3 s4 where
        c: "reputerCommit nd reputer topic ?cur st3 s4 = (r, s')" and
        p: "trace s4 = trace s @ pre" "list_all quiet pre" and
        w: "world s4 = ?entry" and
        f: "\<not> mustRecalcOpenNonceWindow st3" "\<not> mustRecalcReputerWindow st3"
          "mustGetOpenNonce st3 \<longrightarrow> mustGetOpenNonce st"
          "\<not> mustRecalcOpenNonceWindow st \<and> \<not> mustGetOpenNonce st \<and>
             \<not> mustRecalcReputerWindow st \<longrightarrow> st3 = st"
        by blast
      from reputerCommit_extends [OF c] obtain e4 where e4: "trace s' = trace s4 @ e4" by blast
      with tr p have ev: "evs = pre @ e4" by simp
      have "CallBuildCommitReputerPayload reputer h b \<in> set e4"
        using quiet_commit_mem [OF p(2), of "CallBuildCommitReputerPayload reputer h b" e4] mem ev
        by simp
      with c e4 ev p w f show ?thesis by blast
    qed
  qed
  { assume "CallBuildCommitReputerPayload reputer h True \<in> set evs"
    from key [OF this] obtain pre st3 s4 e4 where
      k: "reputerCommit nd reputer topic ?cur st3 s4 = (r, s')" "trace s' = trace s4 @ e4"
         "evs = pre @ e4" "list_all quiet pre"
         "CallBuildCommitReputerPayload reputer h True \<in> set e4" and
      w: "world s4 = ?entry"
      by blast
    from reputerCommit_outcome [OF k(1,2), of h] k(5) have
      o: "r = Continue (st3\<lparr>mustRecalcOpenNonceWindow := True, mustGetOpenNonce := True,
                          mustRecalcReputerWindow := True\<rparr>)"
         "filter isWait e4 = [CallWaitForNextAnticipatedWindowToStart (window st3) ?cur (EpochLength topic)]"
         "last e4 = CallWaitForNextAnticipatedWindowToStart (window st3) ?cur (EpochLength topic)"
      by blast+
    from reputerCommit_world [OF k(1,2), of h] k(5) have
      v: "world s' =
           WaitForNextAnticipatedWindowToStart nd (window st3) ?cur (EpochLength topic)
             (snd (BuildCommitReputerPayload nd reputer h (world s4)))"
      by blast
    from k(5) have ne: "e4 \<noteq> []" by auto
    show "\<exists>st'. r = Continue st' \<and>
            mustRecalcOpenNonceWindow st' \<and> mustGetOpenNonce st' \<and> mustRecalcReputerWindow st' \<and>
            filter isWait evs =
              [CallWaitForNextAnticipatedWindowToStart (window st') ?cur (EpochLength topic)] \<and>
            last evs =
              CallWaitForNextAnticipatedWindowToStart (window st') ?cur (EpochLength topic) \<and>
            world s' =
              WaitForNextAnticipatedWindowToStart nd (window st') ?cur (EpochLength topic)
                (snd (BuildCommitReputerPayload nd reputer h ?entry))"
      using o ne k(3) v w quiet_filter_isWait [OF k(4), of e4] by simp }
  { assume "CallBuildCommitReputerPayload reputer h False \<in> set evs"
    from key [OF this] obtain pre st3 s4 e4 where
      k: "reputerCommit nd reputer topic ?cur st3 s4 = (r, s')" "trace s' = trace s4 @ e4"
         "evs = pre @ e4" "list_all quiet pre"
         "CallBuildCommitReputerPayload reputer h False \<in> set e4" and
      w: "world s4 = ?entry" and
      f: "\<not> mustRecalcOpenNonceWindow st3" "\<not> mustRecalcReputerWindow st3"
         "mustGetOpenNonce st3 \<longrightarrow> mustGetOpenNonce st"
         "\<not> mustRecalcOpenNonceWindow st \<and> \<not> mustGetOpenNonce st \<and>
             \<not> mustRecalcReputerWindow st \<longrightarrow> st3 = st"
      by blast
    from reputerCommit_outcome [OF k(1,2), of h] k(5) have
      o: "r = Continue st3" "filter isWait e4 = [CallWaitWithinAnticipatedWindow]"
         "last e4 = CallWaitWithinAnticipatedWindow"
      by blast+
    from reputerCommit_world [OF k(1,2), of h] k(5) have
      v: "world s' =
           WaitWithinAnticipatedWindow nd (snd (BuildCommitReputerPayload nd reputer h (world s4)))"
      by blast
    from k(5) have ne: "e4 \<noteq> []" by auto
    show "\<exists>st'. r = Continue st' \<and>
            \<not> mustRecalcOpenNonceWindow st' \<and> \<not> mustRecalcReputerWindow st' \<and>
            (mustGetOpenNonce st' \<longrightarrow> mustGetOpenNonce st) \<and>
            (\<not> mustRecalcOpenNonceWindow st \<and> \<not> mustGetOpenNonce st \<and>
             \<not> mustRecalcReputerWindow st \<longrightarrow> st' = st) \<and>
            filter isWait evs = [CallWaitWithinAnticipatedWindow] \<and>
            last evs = CallWaitWithinAnticipatedWindow \<and>
            world s' =
              WaitWithinAnticipatedWindow nd
                (snd (BuildCommitReputerPayload nd reputer h ?entry))"
      using o ne k(3) f v w quiet_filter_isWait [OF k(4), of e4] by simp }
qed

theorem reputer_commit_resets_or_keeps_the_flags_witness:
  "reputerIteration (clockNode True) reputer7 topic7 settledReputer (start 160) =
     (Continue (settledReputer\<lparr>mustRecalcOpenNonceWindow := True, mustGetOpenNonce := True,
                                mustRecalcReputerWindow := True\<rparr>),
      \<lparr>world = 250, trace = reputerAccepted\<rparr>) \<and>
   CallBuildCommitReputerPayload reputer7 50 True \<in> set reputerAccepted \<and>
   filter isWait reputerAccepted = [CallWaitForNextAnticipatedWindowToStart (150, 250) 160 100] \<and>
   snd (BuildCommitReputerPayload (clockNode True) reputer7 50
     (reputerCommitEntry (clockNode True) reputer7 topic7 settledReputer 160)) = 162 \<and>
   WaitForNextAnticipatedWindowToStart (clockNode True) (150, 250) 160 100 162 = 250 \<and>
   reputerIteration (clockNode False) reputer7 topic7 settledReputer (start 160) =
     (Continue settledReputer, \<lparr>world = 163, trace = reputerRejected\<rparr>) \<and>
   CallBuildCommitReputerPayload reputer7 50 False \<in> set reputerRejected \<and>
   filter isWait reputerRejected = [CallWaitWithinAnticipatedWindow] \<and>
   WaitWithinAnticipatedWindow (clockNode False) 162 = 163"
proof -
  have run1: "reputerIteration (clockNode True) reputer7 topic7 settledReputer (start 160) =
      (Continue (settledReputer\<lparr>mustRecalcOpenNonceWindow := True, mustGetOpenNonce := True,
                                 mustRecalcReputerWindow := True\<rparr>),
       \<lparr>world = 250, trace = reputerAccepted\<rparr>)"
    by code_simp
  have run2: "reputerIteration (clockNode False) reputer7 topic7 settledReputer (start 160) =
      (Continue settledReputer, \<lparr>world = 163, trace = reputerRejected\<rparr>)"
    by code_simp
  have tr1: "trace \<lparr>world = 250, trace = reputerAccepted\<rparr> = trace (start 160) @ reputerAccepted"
    by (simp add: start_def)
  have tr2: "trace \<lparr>world = 163, trace = reputerRejected\<rparr> = trace (start 160) @ reputerRejected"
    by (simp add: start_def)
  have mem1: "CallBuildCommitReputerPayload reputer7 50 True \<in> set reputerAccepted"
    by (simp add: reputerAccepted_def)
  have mem2: "CallBuildCommitReputerPayload reputer7 50 False \<in> set reputerRejected"
    by (simp add: reputerRejected_def)
  note t1 = reputer_commit_resets_or_keeps_the_flags
         [THEN conjunct2, rule_format, OF run1 tr1, THEN conjunct1, rule_format, OF mem1]
  note t2 = reputer_commit_resets_or_keeps_the_flags
         [THEN conjunct2, rule_format, OF run2 tr2, THEN conjunct2, rule_format, OF mem2]
  have ht: "fst (fst (GetCurrentChainBlockHeight (clockNode True) 160)) = 160"
    by code_simp
  have e1: "snd (BuildCommitReputerPayload (clockNode True) reputer7 50
     (reputerCommitEntry (clockNode True) reputer7 topic7 settledReputer 160)) = 162"
    by code_simp
  have e2: "snd (BuildCommitReputerPayload (clockNode False) reputer7 50
     (reputerCommitEntry (clockNode False) reputer7 topic7 settledReputer 160)) = 162"
    by code_simp
  have w0: "world (start (160 :: block_height) :: (block_height, block_height \<times> block_height, string, string) sys) = 160"
    by (simp add: start_def)
  have w1: "filter isWait reputerAccepted =
      [CallWaitForNextAnticipatedWindowToStart (150, 250) 160 100]"
    using t1 unfolding w0 ht by (auto simp: topic7_def settledReputer_def)
  have v1: "WaitForNextAnticipatedWindowToStart (clockNode True) (150, 250) 160 100 162 = 250"
    using t1 unfolding w0 ht e1 by (auto simp: topic7_def settledReputer_def)
  have w2: "filter isWait reputerRejected = [CallWaitWithinAnticipatedWindow]"
    using t2 by auto
  have v2: "WaitWithinAnticipatedWindow (clockNode False) 162 = 163"
    using t2 unfolding w0 e2 by auto
  from run1 mem1 w1 e1 v1 run2 mem2 w2 v2 show ?thesis by (intro conjI)
qed

section \<open>The worker commits at most once per window\<close>









section \<open>The worker commits at most once per epoch cycle\<close>




















text \<open>
  The contract is needed for the last part. The scripted collaborator's waits return at
  once; on \<open>hastyChain\<close> the worker commits at height 100 and again at height 101, in the
  same epoch cycle of 100 blocks, each time after computing the window anew.
\<close>

lemma two_commits_in_one_cycle_without_the_contract:
  "successesPerWindow (trace (snd (runWorkerProcess 2 registeringNode worker7 (start hastyChain))))
     = [0, 1, 1] \<and>
   successHeights 0 (trace (snd (runWorkerProcess 2 registeringNode worker7 (start hastyChain))))
     = [100, 101] \<and>
   map (epochCycle 0 100) [100, 101] = [1, 1] \<and>
   scan (paceStep snd 0 100) initialPace
     (trace (snd (runWorkerProcess 2 registeringNode worker7 (start hastyChain)))) = None"
  by code_simp

section \<open>Where the reputer loop leaves the specification\<close>

text \<open>The worker loop never attempts a commit with the absent nonce.\<close>

lemma workerCommit_open_nonce:
  assumes "workerCommit nd worker topic cur st s = (r, s')"
  shows "\<exists>evs. trace s' = trace s @ evs \<and> list_all carriesOpenNonce evs"
  using assms unfolding workerCommit_def unf
  by (auto split: prod.splits option.splits if_splits)

lemma workerIteration_open_nonce:
  assumes it: "workerIteration nd worker topic st s = (r, s')"
    and ok: "list_all carriesOpenNonce (trace s)"
  shows "list_all carriesOpenNonce (trace s')"
  using it
proof (cases rule: workerIteration_cases)
  case (Fails h e)
  with ok show ?thesis by simp
next
  case (Inside cur st1 s1 s2)
  from workerRecalcWindow_events [OF Inside(4)] have "list_all carriesOpenNonce (trace s2)"
    using ok Inside(2) by (simp split: if_splits)
  with workerCommit_open_nonce [OF Inside(6)] show ?thesis by auto
next
  case (Outside cur st1 s1 s2)
  from workerRecalcWindow_events [OF Outside(4)] have "list_all carriesOpenNonce (trace s2)"
    using ok Outside(2) by (simp split: if_splits)
  with Outside(7) show ?thesis by simp
qed

lemma workerLoop_open_nonce:
  "list_all carriesOpenNonce (trace s) \<Longrightarrow>
   list_all carriesOpenNonce (trace (snd (workerLoop k nd worker topic st s)))"
proof (induction k arbitrary: st s)
  case 0
  then show ?case by simp
next
  case (Suc k)
  obtain r s' where it: "workerIteration nd worker topic st s = (r, s')" by (metis surj_pair)
  from workerIteration_open_nonce [OF it Suc.prems] have ok: "list_all carriesOpenNonce (trace s')" .
  show ?case
  proof (cases r)
    case (Continue st')
    from Suc.IH [OF ok] show ?thesis using it Continue by simp
  next
    case Return
    with it ok show ?thesis by simp
  next
    case Panic
    with it ok show ?thesis by simp
  qed
qed

lemma worker_commits_carry_an_open_nonce:
  "list_all carriesOpenNonce (trace (snd (runWorkerProcess k nd worker (start w))))"
proof -
  obtain r s' where st: "workerStart nd worker (start w) = (r, s')" by (metis surj_pair)
  then have ok: "list_all carriesOpenNonce (trace s')"
    unfolding workerStart_def unf by (auto simp: start_def split: prod.splits if_splits)
  show ?thesis
  proof (cases r)
    case (Continue x)
    obtain topic st0 where x: "x = (topic, st0)" by (metis surj_pair)
    from workerLoop_open_nonce [OF ok, of k nd worker topic st0]
    show ?thesis using st Continue x by (simp add: runWorkerProcess_def)
  next
    case Return
    with st ok show ?thesis by (simp add: runWorkerProcess_def)
  next
    case Panic
    with st ok show ?thesis by (simp add: runWorkerProcess_def)
  qed
qed

text \<open>
  The reputer loop reads \<open>latestOpenReputerNonce\<close> at line 157 whenever the submission
  window is stale, whether or not a nonce has been fetched: with no nonce it reads through
  a nil pointer.
\<close>

lemma reputerRecalcWindow_without_nonce:
  "mustRecalcReputerWindow st \<Longrightarrow> latestOpenReputerNonce st = None \<Longrightarrow>
   reputerRecalcWindow nd topic st s = Inl (Panic, s)"
  by (simp add: reputerRecalcWindow_def)

text \<open>
  Claim C1, at the input where the code leaves it. The reputer starts on \<open>sentinelChain\<close>.
  At height 100, inside the window of the open nonce, the nonce query answers with the
  absent nonce; the loop rejects it and goes round, but the rejected nonce stays in
  \<open>latestOpenReputerNonce\<close>. At height 120, past that window, the nonce is not fetched
  again, the submission window is computed from block height 0, height 120 is inside it,
  and \<open>BuildCommitReputerPayload\<close> is called with block height 0.
\<close>

theorem reputer_commits_with_the_absent_nonce:
  "runReputerProcess 3 registeringNode reputer7 (start sentinelChain) =
     (Returned,
      \<lparr>world = unreachableChain,
       trace =
         [Log DebugLevel ''Running reputer process for topic'',
          CallGetTopicById 7,
          CallRegisterAndStakeReputerIdempotently reputer7,
          CallGetCurrentChainBlockHeight 100 None,
          CallCalcWorkerSoonestAnticipatedWindow topic7 100,
          Log DebugLevel ''Reputer anticipated window for open nonce for topic %d: %v'',
          CallGetLatestOpenWorkerNonceByTopicId 7,
          Println 0,
          Log ErrorLevel ''Error getting latest open reputer nonce on topic'',
          CallGetCurrentChainBlockHeight 120 None,
          CallCalcReputerSoonestAnticipatedWindow topic7 0,
          Log DebugLevel ''Reputer anticipated window for submission for topic %d: %v'',
          CallBuildCommitReputerPayload reputer7 0 True,
          CallWaitForNextAnticipatedWindowToStart (100, 200) 120 100,
          CallGetCurrentChainBlockHeight 0 (Some ''chain unreachable''),
          Log ErrorLevel ''Error getting chain block height for reputer job on topic'']\<rparr>) \<and>
   \<not> list_all carriesOpenNonce
       (trace (snd (runReputerProcess 3 registeringNode reputer7 (start sentinelChain))))"
  by code_simp

text \<open>
  Claim C3, at the input where the code leaves it. The reputer starts on \<open>earlyChain\<close>:
  the first height, 100, is before the window of the open nonce, so the nonce is not
  fetched, and the recomputation of the submission window is reached with
  \<open>latestOpenReputerNonce\<close> still nil. The goroutine panics in its first iteration.
\<close>

theorem reputer_recomputes_its_window_without_a_nonce:
  "runReputerProcess 1 registeringNode reputer7 (start earlyChain) =
     (Panicked,
      \<lparr>world = unreachableChain,
       trace =
         [Log DebugLevel ''Running reputer process for topic'',
          CallGetTopicById 7,
          CallRegisterAndStakeReputerIdempotently reputer7,
          CallGetCurrentChainBlockHeight 100 None,
          CallCalcWorkerSoonestAnticipatedWindow topic7 100,
          Log DebugLevel ''Reputer anticipated window for open nonce for topic %d: %v'']\<rparr>)"
  by code_simp

text \<open>
  Claim C4, at the input where the code leaves it. On \<open>sentinelChain\<close> the nonce query
  answers with the absent nonce. The reputer loop goes round again at once: its first
  iteration ends with the error log line and calls no wait. The worker loop, on the same
  chain, calls the short wait within the window.
\<close>

theorem reputer_retries_the_nonce_without_waiting:
  "runReputerProcess 1 registeringNode reputer7 (start sentinelChain) =
     (Running,
      \<lparr>world = \<lparr>heights = [(120, None)], windows = [], nonces = [], commits = [(True, None)]\<rparr>,
       trace =
         [Log DebugLevel ''Running reputer process for topic'',
          CallGetTopicById 7,
          CallRegisterAndStakeReputerIdempotently reputer7,
          CallGetCurrentChainBlockHeight 100 None,
          CallCalcWorkerSoonestAnticipatedWindow topic7 100,
          Log DebugLevel ''Reputer anticipated window for open nonce for topic %d: %v'',
          CallGetLatestOpenWorkerNonceByTopicId 7,
          Println 0,
          Log ErrorLevel ''Error getting latest open reputer nonce on topic'']\<rparr>) \<and>
   filter isWait
     (trace (snd (runReputerProcess 1 registeringNode reputer7 (start sentinelChain)))) = [] \<and>
   filter isWait
     (trace (snd (runWorkerProcess 1 registeringNode worker7 (start sentinelChain)))) =
     [CallWaitWithinAnticipatedWindow]"
  by code_simp

end
